theory Spec2Isabelle
  imports Complex_Main
begin

section \<open>The Hetzner server scaler (rescale.py)\<close>

text \<open>
  The script talks to three things outside itself: the operator's console (one line read
  with \<open>input\<close>, text written to standard output), the provider's REST API (through the
  \<open>requests\<close> library) and the wall clock (\<open>time.time\<close>, \<open>time.sleep\<close>). The model
  takes the answers of the outside as a \<open>world\<close>, threads a \<open>state\<close> through the
  functions of the script and records every effect as an \<open>event\<close> of a trace.

  Exceptions are values: an uncaught exception leaves \<open>main\<close> and ends the process with
  exit status 1, as \<open>sys.exit\<close> with a string argument does. The polling loop
  \<open>while True\<close> may run forever; it is a partial function into \<open>option\<close>, and
  \<open>None\<close> is the run that never returns.
\<close>

subsection \<open>Python values\<close>

datatype exn =
    RequestException
  | JSONDecodeError
  | KeyError
  | TypeError
  | EOFError
  | NoSectionError
  | NoOptionError
  | ValueError

text \<open>The value \<open>response.json()\<close> returns. Numbers are not inspected by the script.\<close>

datatype json =
    JNull
  | JBool bool
  | JNum int
  | JStr string
  | JArr "json list"
  | JObj "(string \<times> json) list"

text \<open>
  \<open>v[key]\<close> with a string key: a dict looks the key up and raises \<open>KeyError\<close> when it is
  absent; every other JSON value raises \<open>TypeError\<close>.
\<close>

fun subscript :: "json \<Rightarrow> string \<Rightarrow> exn + json" where
  "subscript (JObj kvs) k = (case map_of kvs k of None \<Rightarrow> Inl KeyError | Some v \<Rightarrow> Inr v)"
| "subscript _ k = Inl TypeError"

text \<open>
  \<open>str.lower\<close> on the characters of a \<open>string\<close>: the letters A to Z are shifted, every
  other character is kept. The results are only compared with \<open>y\<close> and with the boolean
  words of configparser, and no character outside ASCII has a letter of these as its
  lower case.
\<close>

definition lower_char :: "char \<Rightarrow> char" where
  "lower_char c =
     (let n = (of_char c :: nat) in if 65 \<le> n \<and> n \<le> 90 then char_of (n + 32) else c)"

definition lower :: "string \<Rightarrow> string" where
  "lower s = map lower_char s"

text \<open>\<open>str(n)\<close> for an integer, as an f-string formats it.\<close>

definition digit_char :: "nat \<Rightarrow> char" where
  "digit_char d = char_of (48 + d)"

function str_nat :: "nat \<Rightarrow> string" where
  "str_nat n = (if n < 10 then [digit_char n] else str_nat (n div 10) @ [digit_char (n mod 10)])"
  by pat_completeness auto
termination
  by (relation "measure (\<lambda>n. n)") auto

declare str_nat.simps [simp del]

definition str_int :: "int \<Rightarrow> string" where
  "str_int i = (if i < 0 then CHR ''-'' # str_nat (nat (- i)) else str_nat (nat i))"

subsection \<open>Command line and configuration file (lines 35 to 77)\<close>

definition server_type_choices :: "string list" where
  "server_type_choices = [''cpx11'', ''cpx21'', ''cpx31'', ''cpx41'', ''cpx51'']"

definition server_type_default :: string where
  "server_type_default = ''cpx11''"

text \<open>
  What \<open>parser.parse_args()\<close> returns: an option that was not given is \<open>None\<close>, except
  \<open>--config\<close> and \<open>--server_type\<close>, which have defaults, and the flag
  \<open>--upgrade_disk\<close>, which is \<open>False\<close> when absent.
\<close>

record args =
  arg_config :: string
  arg_api_key :: "string option"
  arg_server_id :: "string option"
  arg_server_type :: string
  arg_upgrade_disk :: bool

text \<open>
  The command line as the operator typed it: each option given or not. \<open>parse_args\<close>
  fills the defaults in; a server type outside the choices makes argparse end the process
  with status 2 before anything else runs (\<open>None\<close> here).
\<close>

record cli =
  cli_config :: "string option"
  cli_api_key :: "string option"
  cli_server_id :: "string option"
  cli_server_type :: "string option"
  cli_upgrade_disk :: bool

definition parse_args :: "cli \<Rightarrow> args option" where
  "parse_args c =
     (case cli_server_type c of
        None \<Rightarrow>
          Some \<lparr>arg_config = (case cli_config c of None \<Rightarrow> ''config.ini'' | Some p \<Rightarrow> p),
                arg_api_key = cli_api_key c, arg_server_id = cli_server_id c,
                arg_server_type = server_type_default,
                arg_upgrade_disk = cli_upgrade_disk c\<rparr>
      | Some t \<Rightarrow>
          if t \<in> set server_type_choices
          then Some \<lparr>arg_config = (case cli_config c of None \<Rightarrow> ''config.ini'' | Some p \<Rightarrow> p),
                     arg_api_key = cli_api_key c, arg_server_id = cli_server_id c,
                     arg_server_type = t,
                     arg_upgrade_disk = cli_upgrade_disk c\<rparr>
          else None)"

text \<open>
  The \<open>ConfigParser\<close> after \<open>config.read\<close>: the sections of the file, each with its
  options (the parser refuses a file that repeats a section or an option). A file that
  does not exist is read as no section at all.
\<close>

type_synonym config = "(string \<times> (string \<times> string) list) list"

definition config_get :: "config \<Rightarrow> string \<Rightarrow> string \<Rightarrow> exn + string" where
  "config_get cfg section option =
     (case map_of cfg section of
        None \<Rightarrow> Inl NoSectionError
      | Some opts \<Rightarrow> (case map_of opts option of None \<Rightarrow> Inl NoOptionError | Some v \<Rightarrow> Inr v))"

text \<open>
  \<open>config.getboolean(section, option, fallback=False)\<close>: the fallback when the section
  or the option is missing, \<open>ValueError\<close> when the value is not one of the boolean words.
\<close>

definition config_getboolean :: "config \<Rightarrow> string \<Rightarrow> string \<Rightarrow> bool \<Rightarrow> exn + bool" where
  "config_getboolean cfg section option fallback =
     (case config_get cfg section option of
        Inl e \<Rightarrow> Inr fallback
      | Inr v \<Rightarrow>
          if lower v \<in> set [''1'', ''yes'', ''true'', ''on''] then Inr True
          else if lower v \<in> set [''0'', ''no'', ''false'', ''off''] then Inr False
          else Inl ValueError)"

text \<open>The module-level names the functions of the script read.\<close>

record globals =
  api_key :: string
  server_id :: string
  server_type :: string
  upgrade_disk :: bool

text \<open>
  Lines 66 to 71. \<open>a or b\<close> is \<open>a\<close> when \<open>a\<close> is truthy and otherwise evaluates \<open>b\<close>:
  \<open>None\<close> and the empty string are falsy.
\<close>

definition load_globals :: "args \<Rightarrow> config \<Rightarrow> exn + globals" where
  "load_globals a cfg =
     (case (case arg_api_key a of
              Some k \<Rightarrow> if k \<noteq> [] then Inr k else config_get cfg ''hetzner'' ''api_key''
            | None \<Rightarrow> config_get cfg ''hetzner'' ''api_key'') of
        Inl e \<Rightarrow> Inl e
      | Inr key \<Rightarrow>
     (case (case arg_server_id a of
              Some i \<Rightarrow> if i \<noteq> [] then Inr i else config_get cfg ''hetzner'' ''server_id''
            | None \<Rightarrow> config_get cfg ''hetzner'' ''server_id'') of
        Inl e \<Rightarrow> Inl e
      | Inr sid \<Rightarrow>
     (case (if arg_upgrade_disk a then Inr True
            else config_getboolean cfg ''hetzner'' ''upgrade_disk'' False) of
        Inl e \<Rightarrow> Inl e
      | Inr up \<Rightarrow>
          Inr \<lparr>api_key = key, server_id = sid, server_type = arg_server_type a,
               upgrade_disk = up\<rparr>)))"

subsection \<open>The outside world and the trace\<close>

text \<open>
  A response of the API: its status code, its body as text, and what \<open>response.json()\<close>
  gives for that body (\<open>None\<close> when the body is not JSON and the call raises). The JSON
  parser belongs to the library, so the parsed value comes with the text. The attribute
  \<open>text\<close> of the response is the field \<open>resp_text\<close>.
\<close>

record response =
  status_code :: int
  resp_text :: string
  json_body :: "json option"

text \<open>A request either raises inside \<open>requests\<close> (no connection, ...) or returns.\<close>

datatype reply = Raised | Response response

text \<open>The three calls of the client (lines 80 to 103), with their arguments.\<close>

datatype call =
    GetServer string
  | ServerAction string string
  | ChangeServerType string string bool

definition base_url :: string where
  "base_url = ''https://api.hetzner.cloud/v1''"

datatype http_method = GET | POST

fun http_method_of :: "call \<Rightarrow> http_method" where
  "http_method_of (GetServer sid) = GET"
| "http_method_of (ServerAction sid action) = POST"
| "http_method_of (ChangeServerType sid ty up) = POST"

fun url_of :: "call \<Rightarrow> string" where
  "url_of (GetServer sid) = base_url @ ''/servers/'' @ sid"
| "url_of (ServerAction sid action) = base_url @ ''/servers/'' @ sid @ ''/actions/'' @ action"
| "url_of (ChangeServerType sid ty up) = base_url @ ''/servers/'' @ sid @ ''/actions/change_type''"

fun payload_of :: "call \<Rightarrow> (string \<times> json) list option" where
  "payload_of (ChangeServerType sid ty up) =
     Some [(''server_type'', JStr ty), (''upgrade_disk'', JBool up)]"
| "payload_of _ = None"

text \<open>A state-changing call is one sent with POST.\<close>

definition is_action :: "call \<Rightarrow> bool" where
  "is_action c = (http_method_of c = POST)"

text \<open>
  The effects of a run, in the order in which they happen: text written to standard
  output, a call of \<open>input\<close> with its prompt, a request with the reply it got, a reading
  of \<open>time.time()\<close> with its value, a call of \<open>time.sleep\<close>.
\<close>

datatype event =
    Stdout string
  | Input string
  | Http call reply
  | Clock real
  | Sleep nat

text \<open>
  The world answers the \<open>k\<close>-th request with \<open>http w k\<close> and the \<open>k\<close>-th reading of the
  clock with \<open>clock w k\<close> (seconds, as a real number; the rounding of floating point is
  left out). \<open>stdin w\<close> is the line the operator types, \<open>None\<close> at end of input. The
  script is deterministic, so the answers in the order of the questions describe every
  behaviour of the outside.
\<close>

record world =
  stdin :: "string option"
  http :: "nat \<Rightarrow> reply"
  clock :: "nat \<Rightarrow> real"

text \<open>
  The state of a run: the number of requests sent, the number of clock readings made, and
  the events so far. \<open>print\<close> adds a newline to what it writes, \<open>sys.stdout.write\<close>
  (here \<open>stdout_write\<close>) does not.
\<close>

record state =
  nreq :: nat
  nclk :: nat
  trace :: "event list"

definition init :: state where
  "init = \<lparr>nreq = 0, nclk = 0, trace = []\<rparr>"

definition emit :: "event \<Rightarrow> state \<Rightarrow> state" where
  "emit e s = s\<lparr>trace := trace s @ [e]\<rparr>"

definition stdout_write :: "string \<Rightarrow> state \<Rightarrow> state" where
  "stdout_write str s = emit (Stdout str) s"

definition print :: "string \<Rightarrow> state \<Rightarrow> state" where
  "print str s = emit (Stdout (str @ [CHR 0x0A])) s"

definition sleep :: "nat \<Rightarrow> state \<Rightarrow> state" where
  "sleep n s = emit (Sleep n) s"

definition time :: "world \<Rightarrow> state \<Rightarrow> real \<times> state" where
  "time w s = (clock w (nclk s), emit (Clock (clock w (nclk s))) (s\<lparr>nclk := nclk s + 1\<rparr>))"

definition request :: "world \<Rightarrow> call \<Rightarrow> state \<Rightarrow> reply \<times> state" where
  "request w c s = (http w (nreq s), emit (Http c (http w (nreq s))) (s\<lparr>nreq := nreq s + 1\<rparr>))"

subsection \<open>The client (lines 80 to 103)\<close>

definition get_server :: "world \<Rightarrow> string \<Rightarrow> state \<Rightarrow> reply \<times> state" where
  "get_server w sid s = request w (GetServer sid) s"

definition server_action :: "world \<Rightarrow> string \<Rightarrow> string \<Rightarrow> state \<Rightarrow> reply \<times> state" where
  "server_action w sid action s = request w (ServerAction sid action) s"

definition change_server_type ::
  "world \<Rightarrow> string \<Rightarrow> string \<Rightarrow> bool \<Rightarrow> state \<Rightarrow> reply \<times> state" where
  "change_server_type w sid ty up s = request w (ChangeServerType sid ty up) s"

text \<open>\<open>response.json()["server"]["status"]\<close>\<close>

definition server_status_of :: "response \<Rightarrow> exn + json" where
  "server_status_of r =
     (case json_body r of
        None \<Rightarrow> Inl JSONDecodeError
      | Some j \<Rightarrow> (case subscript j ''server'' of Inl e \<Rightarrow> Inl e | Inr sv \<Rightarrow> subscript sv ''status''))"

text \<open>\<open>f"Error {response.status_code}: {response.text}"\<close>\<close>

definition error_message :: "response \<Rightarrow> string" where
  "error_message r = ''Error '' @ str_int (status_code r) @ '': '' @ resp_text r"

subsection \<open>The poller (lines 106 to 136)\<close>

text \<open>The generator \<open>spinner\<close>: its \<open>k\<close>-th value.\<close>

definition spinner :: "nat \<Rightarrow> char" where
  "spinner k = [CHR ''|'', CHR ''/'', CHR ''-'', CHR 0x5C] ! (k mod 4)"

text \<open>
  One pass through the body of \<open>while True\<close>, up to the point where it returns, raises or
  goes round again. \<open>k\<close> counts the passes (it is the state of the spinner).
\<close>

datatype 'a pass = Stop 'a state | Again state

definition wait_pass ::
  "world \<Rightarrow> string \<Rightarrow> string \<Rightarrow> int \<Rightarrow> real \<Rightarrow> real \<Rightarrow> nat \<Rightarrow> state \<Rightarrow> (exn + bool) pass" where
  "wait_pass w sid status code timeout start_time k s =
     (case get_server w sid s of
        (Raised, s1) \<Rightarrow> Stop (Inl RequestException) s1
      | (Response r, s1) \<Rightarrow>
          if status_code r = code then
            (case server_status_of r of
               Inl e \<Rightarrow> Stop (Inl e) s1
             | Inr server_status \<Rightarrow>
                 if server_status = JStr status then Stop (Inr True) (stdout_write [CHR 0x08, CHR '' '', CHR 0x0A] s1)
                 else
                   (case time w s1 of
                      (now, s2) \<Rightarrow>
                        if now - start_time > timeout
                        then Stop (Inr False) (print ''Timed out waiting for server status change.'' s2)
                        else Again (sleep 1 (stdout_write [CHR 0x08, spinner k] s2))))
          else Stop (Inr False) (print (error_message r) s1))"

partial_function (option) wait_loop ::
  "world \<Rightarrow> string \<Rightarrow> string \<Rightarrow> int \<Rightarrow> real \<Rightarrow> real \<Rightarrow> nat \<Rightarrow> state \<Rightarrow> ((exn + bool) \<times> state) option" where
  "wait_loop w sid status code timeout start_time k s =
     (case wait_pass w sid status code timeout start_time k s of
        Stop r s' \<Rightarrow> Some (r, s')
      | Again s' \<Rightarrow> wait_loop w sid status code timeout start_time (k + 1) s')"

definition wait_for_server_status ::
  "world \<Rightarrow> string \<Rightarrow> string \<Rightarrow> int \<Rightarrow> real \<Rightarrow> state \<Rightarrow> ((exn + bool) \<times> state) option" where
  "wait_for_server_status w sid status code timeout s =
     (case time w s of (start_time, s0) \<Rightarrow> wait_loop w sid status code timeout start_time 0 s0)"

subsection \<open>The steps of the orchestration (lines 139 to 176)\<close>

text \<open>\<open>server_is_running\<close> returns \<open>True\<close>, \<open>False\<close> or \<open>None\<close>.\<close>

definition server_is_running :: "world \<Rightarrow> string \<Rightarrow> state \<Rightarrow> (exn + bool option) \<times> state" where
  "server_is_running w sid s =
     (case get_server w sid s of
        (Raised, s1) \<Rightarrow> (Inl RequestException, s1)
      | (Response r, s1) \<Rightarrow>
          if status_code r = 200 then
            (case server_status_of r of
               Inl e \<Rightarrow> (Inl e, s1)
             | Inr server_status \<Rightarrow> (Inr (Some (server_status = JStr ''running'')), s1))
          else (Inr None, print (error_message r) s1))"

definition stop_server :: "world \<Rightarrow> string \<Rightarrow> state \<Rightarrow> ((exn + bool) \<times> state) option" where
  "stop_server w sid s =
     (case server_action w sid ''poweroff'' s of
        (Raised, s1) \<Rightarrow> Some (Inl RequestException, s1)
      | (Response r, s1) \<Rightarrow>
          if status_code r = 201 then
            (case wait_for_server_status w sid ''off'' 200 300 (print ''Server stopping...'' s1) of
               None \<Rightarrow> None
             | Some (Inl e, s2) \<Rightarrow> Some (Inl e, s2)
             | Some (Inr True, s2) \<Rightarrow>
                 Some (Inr True,
                   sleep 5 (print ''Waiting 5 seconds before proceeding.''
                     (print ''Server stopped successfully.'' s2)))
             | Some (Inr False, s2) \<Rightarrow> Some (Inr False, print ''Failed to stop server.'' s2))
          else Some (Inr False, print (error_message r) s1))"

definition scale_server ::
  "world \<Rightarrow> string \<Rightarrow> string \<Rightarrow> bool \<Rightarrow> state \<Rightarrow> (exn + bool) \<times> state" where
  "scale_server w sid ty up s =
     (case change_server_type w sid ty up s of
        (Raised, s1) \<Rightarrow> (Inl RequestException, s1)
      | (Response r, s1) \<Rightarrow>
          if status_code r = 201
          then (Inr True, print (''Server scaling to '' @ ty @ '' started successfully.'') s1)
          else (Inr False, print (error_message r) s1))"

subsection \<open>\<open>main\<close> (lines 179 to 209)\<close>

text \<open>
  How the process ends: \<open>main\<close> returns (status 0), \<open>sys.exit\<close> is called with a message
  (the message goes to standard error, status 1), an exception is not caught
  (traceback, status 1), or argparse refuses the command line (status 2).
\<close>

datatype outcome = Returned | SysExit string | Uncaught exn | UsageError

fun exit_status :: "outcome \<Rightarrow> nat" where
  "exit_status Returned = 0"
| "exit_status (SysExit msg) = 1"
| "exit_status (Uncaught e) = 1"
| "exit_status UsageError = 2"

text \<open>\<open>input(prompt)\<close>: shows the prompt and reads a line; \<open>EOFError\<close> at end of input.\<close>

definition input :: "world \<Rightarrow> string \<Rightarrow> state \<Rightarrow> (exn + string) \<times> state" where
  "input w prompt s =
     (case stdin w of
        None \<Rightarrow> (Inl EOFError, emit (Input prompt) s)
      | Some line \<Rightarrow> (Inr line, emit (Input prompt) s))"

text \<open>Lines 201 to 209: the statements of \<open>main\<close> after the \<open>if\<close> on \<open>running\<close>.\<close>

definition main_scale :: "globals \<Rightarrow> world \<Rightarrow> state \<Rightarrow> (outcome \<times> state) option" where
  "main_scale g w s =
     (case scale_server w (server_id g) (server_type g) (upgrade_disk g) s of
        (Inl e, s1) \<Rightarrow> Some (Uncaught e, s1)
      | (Inr False, s1) \<Rightarrow> Some (SysExit ''Aborted.'', s1)
      | (Inr True, s1) \<Rightarrow>
          (case wait_for_server_status w (server_id g) ''running'' 200 300
                  (print ''Waiting for server to boot.'' s1) of
             None \<Rightarrow> None
           | Some (Inl e, s2) \<Rightarrow> Some (Uncaught e, s2)
           | Some (Inr False, s2) \<Rightarrow> Some (SysExit ''Failed to restart rescaled server.'', s2)
           | Some (Inr True, s2) \<Rightarrow> Some (Returned, print ''Rescaled server now accessible'' s2)))"

definition confirm_prompt :: "globals \<Rightarrow> string" where
  "confirm_prompt g =
     ''Do you want to proceed with scaling the server to '' @ server_type g @ ''? (y/n): ''"

definition main :: "globals \<Rightarrow> world \<Rightarrow> state \<Rightarrow> (outcome \<times> state) option" where
  "main g w s =
     (case input w (confirm_prompt g)
             (print ''The server will be stopped if it is already running, to rescale it.'' s) of
        (Inl e, s1) \<Rightarrow> Some (Uncaught e, s1)
      | (Inr confirm, s1) \<Rightarrow>
          if lower confirm \<noteq> ''y'' then Some (SysExit ''Aborted.'', s1)
          else
            (case server_is_running w (server_id g) s1 of
               (Inl e, s2) \<Rightarrow> Some (Uncaught e, s2)
             | (Inr None, s2) \<Rightarrow>
                 Some (SysExit ''Aborted.'',
                   print ''Error occurred while checking server's running status.'' s2)
             | (Inr (Some True), s2) \<Rightarrow>
                 (case stop_server w (server_id g) (print ''Server is currently running.'' s2) of
                    None \<Rightarrow> None
                  | Some (Inl e, s3) \<Rightarrow> Some (Uncaught e, s3)
                  | Some (Inr False, s3) \<Rightarrow> Some (SysExit ''Aborted.'', s3)
                  | Some (Inr True, s3) \<Rightarrow> main_scale g w s3)
             | (Inr (Some False), s2) \<Rightarrow> main_scale g w (print ''Server is not running.'' s2)))"

text \<open>
  The whole script: the module-level statements, then \<open>main\<close>. \<open>files\<close> gives the
  sections of the configuration file at a path. An exception of the module level (a
  missing section or option, a value that is no boolean) is not caught.
\<close>

definition script :: "cli \<Rightarrow> (string \<Rightarrow> config) \<Rightarrow> world \<Rightarrow> (outcome \<times> state) option" where
  "script c files w =
     (case parse_args c of
        None \<Rightarrow> Some (UsageError, init)
      | Some a \<Rightarrow>
          (case load_globals a (files (arg_config a)) of
             Inl e \<Rightarrow> Some (Uncaught e, init)
           | Inr g \<Rightarrow> main g w init))"

section \<open>Describing runs\<close>

text \<open>
  The vocabulary of the statements below. None of it is part of the script; each
  predicate names a condition that the script tests.

  A reply to a fetch that has the expected status code and shows the status waited for
  (\<open>reports\<close>), and one that has the expected code and shows another status
  (\<open>pending\<close>): the two cases in which \<open>wait_for_server_status\<close> looks at the body
  without raising.
\<close>

definition reports :: "reply \<Rightarrow> int \<Rightarrow> string \<Rightarrow> bool" where
  "reports rp code status =
     (case rp of
        Raised \<Rightarrow> False
      | Response r \<Rightarrow> status_code r = code \<and> server_status_of r = Inr (JStr status))"

definition pending :: "reply \<Rightarrow> int \<Rightarrow> string \<Rightarrow> bool" where
  "pending rp code status =
     (case rp of
        Raised \<Rightarrow> False
      | Response r \<Rightarrow>
          status_code r = code \<and>
          (case server_status_of r of Inl e \<Rightarrow> False | Inr v \<Rightarrow> v \<noteq> JStr status))"

text \<open>
  The events of one pass of the loop that goes round again: request number \<open>q\<close>, clock
  reading number \<open>c\<close>, spinner position \<open>k\<close>; and of \<open>n\<close> such passes in a row.
\<close>

definition poll_events :: "world \<Rightarrow> string \<Rightarrow> nat \<Rightarrow> nat \<Rightarrow> nat \<Rightarrow> event list" where
  "poll_events w sid q c k =
     [Http (GetServer sid) (http w q), Clock (clock w c), Stdout [CHR 0x08, spinner k], Sleep 1]"

fun polls :: "world \<Rightarrow> string \<Rightarrow> nat \<Rightarrow> nat \<Rightarrow> nat \<Rightarrow> nat \<Rightarrow> event list" where
  "polls w sid q c k 0 = []"
| "polls w sid q c k (Suc n) = poll_events w sid q c k @ polls w sid (Suc q) (Suc c) (Suc k) n"

text \<open>The state after \<open>n\<close> such passes, the first with spinner position \<open>k\<close>.\<close>

definition polled :: "world \<Rightarrow> string \<Rightarrow> nat \<Rightarrow> nat \<Rightarrow> state \<Rightarrow> state" where
  "polled w sid k n s =
     (s\<lparr>nreq := nreq s + n, nclk := nclk s + n,
       trace := trace s @ polls w sid (nreq s) (nclk s) k n\<rparr>)"

text \<open>Every request among the events is a fetch of the server \<open>sid\<close>.\<close>

fun only_fetches :: "string \<Rightarrow> event list \<Rightarrow> bool" where
  "only_fetches sid [] = True"
| "only_fetches sid (Http c rp # evs) = (c = GetServer sid \<and> only_fetches sid evs)"
| "only_fetches sid (e # evs) = only_fetches sid evs"

text \<open>The event is a change_type request.\<close>

fun is_change_type :: "event \<Rightarrow> bool" where
  "is_change_type (Http (ChangeServerType sid ty up) rp) = True"
| "is_change_type e = False"

text \<open>The state a pass of the loop ends in.\<close>

fun pass_state :: "'a pass \<Rightarrow> state" where
  "pass_state (Stop r s) = s"
| "pass_state (Again s) = s"

text \<open>The state after \<open>start_time = time.time()\<close>.\<close>

definition started :: "world \<Rightarrow> state \<Rightarrow> state" where
  "started w s = snd (time w s)"

text \<open>What \<open>print(msg)\<close> writes.\<close>

abbreviation Line :: "string \<Rightarrow> event" where
  "Line msg \<equiv> Stdout (msg @ [CHR 0x0A])"

text \<open>
  Reading a decimal numeral back: the value of a string of digits, with an optional
  minus sign in front, and the test for a digit.
\<close>

definition nat_of_str :: "string \<Rightarrow> nat" where
  "nat_of_str s = foldl (\<lambda>a c. 10 * a + (of_char c - 48)) 0 s"

definition int_of_str :: "string \<Rightarrow> int" where
  "int_of_str s =
     (case s of
        [] \<Rightarrow> 0
      | c # cs \<Rightarrow> if c = CHR ''-'' then - int (nat_of_str cs) else int (nat_of_str s))"

definition is_digit :: "char \<Rightarrow> bool" where
  "is_digit c = (48 \<le> (of_char c :: nat) \<and> (of_char c :: nat) \<le> 57)"

subsection \<open>Example inputs\<close>

text \<open>
  Replies of the provider: a fetched server with a given status, an accepted action, a
  rejected one (the server is locked).
\<close>

definition quoted :: "string \<Rightarrow> string" where
  "quoted s = CHR 0x22 # s @ [CHR 0x22]"

definition server_response :: "string \<Rightarrow> response" where
  "server_response status =
     \<lparr>status_code = 200,
      resp_text = ''{'' @ quoted ''server'' @ '': {'' @ quoted ''status'' @ '': '' @ quoted status @ ''}}'',
      json_body = Some (JObj [(''server'', JObj [(''status'', JStr status)])])\<rparr>"

definition fetched :: "string \<Rightarrow> reply" where
  "fetched status = Response (server_response status)"

definition accepted :: response where
  "accepted =
     \<lparr>status_code = 201,
      resp_text = ''{'' @ quoted ''action'' @ '': {'' @ quoted ''status'' @ '': '' @ quoted ''running'' @ ''}}'',
      json_body = Some (JObj [(''action'', JObj [(''status'', JStr ''running'')])])\<rparr>"

definition rejected :: response where
  "rejected =
     \<lparr>status_code = 423,
      resp_text = ''{'' @ quoted ''error'' @ '': {'' @ quoted ''code'' @ '': '' @ quoted ''locked'' @ ''}}'',
      json_body = Some (JObj [(''error'', JObj [(''code'', JStr ''locked'')])])\<rparr>"

text \<open>
  A world that answers the first requests with the replies listed and lets every later
  request fail in transport; the operator types \<open>line\<close>.
\<close>

definition scripted :: "string \<Rightarrow> reply list \<Rightarrow> (nat \<Rightarrow> real) \<Rightarrow> world" where
  "scripted line replies clk =
     \<lparr>stdin = Some line, http = (\<lambda>k. if k < length replies then replies ! k else Raised),
      clock = clk\<rparr>"

definition example_globals :: globals where
  "example_globals = \<lparr>api_key = ''secret'', server_id = ''42'', server_type = ''cpx21'', upgrade_disk = False\<rparr>"

definition happy_world :: world where
  "happy_world =
     scripted ''y''
       [fetched ''running'', Response accepted, fetched ''stopping'', fetched ''off'',
        Response accepted, fetched ''starting'', fetched ''running'']
       (\<lambda>k. real k)"

definition example_cli :: cli where
  "example_cli = \<lparr>cli_config = None, cli_api_key = Some ''secret'', cli_server_id = Some ''42'',
     cli_server_type = Some ''cpx21'', cli_upgrade_disk = False\<rparr>"

definition no_files :: "string \<Rightarrow> config" where
  "no_files path = []"

definition empty_key_cli :: cli where
  "empty_key_cli = \<lparr>cli_config = None, cli_api_key = Some [], cli_server_id = Some ''42'',
     cli_server_type = Some ''cpx21'', cli_upgrade_disk = False\<rparr>"

definition example_config :: config where
  "example_config =
     [(''hetzner'', [(''api_key'', ''filekey''), (''server_id'', ''7''), (''upgrade_disk'', ''no'')])]"

definition both_cli :: cli where
  "both_cli = \<lparr>cli_config = None, cli_api_key = Some ''secret'', cli_server_id = Some ''42'',
     cli_server_type = Some ''cpx21'', cli_upgrade_disk = True\<rparr>"

definition timeout_world :: world where
  "timeout_world =
     scripted ''y''
       [fetched ''running'', Response accepted, fetched ''stopping'', fetched ''stopping'']
       (\<lambda>k. 200 * real k)"

definition off_world :: world where
  "off_world =
     scripted ''y'' [fetched ''off'', Response accepted, fetched ''running''] (\<lambda>k. real k)"

definition off_rejected_world :: world where
  "off_rejected_world = scripted ''y'' [fetched ''off'', Response rejected] (\<lambda>k. 0)"

definition rejected_poweroff_world :: world where
  "rejected_poweroff_world =
     scripted ''y'' [fetched ''running'', Response rejected, Response accepted] (\<lambda>k. 0)"

definition failing_poll_world :: world where
  "failing_poll_world =
     scripted ''y'' [fetched ''stopping'', Response rejected] (\<lambda>k. real k)"

definition rejected_after_stop_world :: world where
  "rejected_after_stop_world =
     scripted ''y''
       [fetched ''running'', Response accepted, fetched ''stopping'', fetched ''off'',
        Response rejected]
       (\<lambda>k. real k)"

section \<open>Properties of the poller and of the steps\<close>

subsection \<open>Unfolding the effects and the examples\<close>

lemmas effect_defs =
  emit_def stdout_write_def print_def sleep_def time_def request_def get_server_def
  server_action_def change_server_type_def

lemmas example_defs = scripted_def fetched_def server_response_def accepted_def rejected_def reports_def pending_def
  server_status_of_def

subsection \<open>Lists of events\<close>

lemma only_fetches_append:
  "only_fetches sid (xs @ ys) \<longleftrightarrow> only_fetches sid xs \<and> only_fetches sid ys"
  by (induction sid xs rule: only_fetches.induct) auto

lemma only_fetches_D: "only_fetches sid evs \<Longrightarrow> Http c rp \<in> set evs \<Longrightarrow> c = GetServer sid"
  by (induction sid evs rule: only_fetches.induct) auto

lemma only_fetches_no_change_type: "only_fetches sid evs \<Longrightarrow> e \<in> set evs \<Longrightarrow> \<not> is_change_type e"
  by (induction sid evs rule: only_fetches.induct) auto

lemma no_requests_only_fetches: "\<forall>c rp. Http c rp \<notin> set evs \<Longrightarrow> only_fetches sid evs"
  by (induction sid evs rule: only_fetches.induct) auto

lemma only_fetches_polls: "only_fetches sid (polls w sid q c k n)"
  by (induction n arbitrary: q c k) (auto simp: poll_events_def)

lemma polls_no_change_type: "e \<in> set (polls w sid q c k n) \<Longrightarrow> \<not> is_change_type e"
  by (induction n arbitrary: q c k) (auto simp: poll_events_def)

lemma polls_fetch:
  "Http c rp \<in> set (polls w sid q c' k n) \<Longrightarrow> \<exists>i<n. rp = http w (q + i)"
proof (induction n arbitrary: q c' k)
  case 0
  then show ?case by simp
next
  case (Suc n)
  from Suc.prems consider "rp = http w q" | "Http c rp \<in> set (polls w sid (Suc q) (Suc c') (Suc k) n)"
    by (auto simp: poll_events_def)
  then show ?case
  proof cases
    case 1
    then have "0 < Suc n \<and> rp = http w (q + 0)" by simp
    then show ?thesis by blast
  next
    case 2
    from Suc.IH [OF this] obtain i where "i < n" "rp = http w (Suc q + i)" by blast
    then have "Suc i < Suc n \<and> rp = http w (q + Suc i)" by simp
    then show ?thesis by blast
  qed
qed

lemma split_unique:
  assumes "\<forall>e \<in> set xs. \<not> P e" and "\<forall>e \<in> set ys. \<not> P e" and "P a" and "P b"
    and "xs @ a # ys = pre @ b # post"
  shows "xs = pre \<and> a = b \<and> ys = post"
  using assms
proof (induction xs arbitrary: pre)
  case Nil
  then show ?case by (cases pre) auto
next
  case (Cons x xs)
  show ?case
  proof (cases pre)
    case Nil
    with Cons.prems show ?thesis by auto
  next
    case (Cons p pre')
    with Cons.prems Cons.IH [of pre'] show ?thesis by auto
  qed
qed

subsection \<open>One pass of the polling loop\<close>

lemma pending_not_reports: "pending rp code status \<Longrightarrow> \<not> reports rp code status"
  by (auto simp: pending_def reports_def split: reply.splits sum.splits)

lemma reportsD:
  "reports rp code status \<Longrightarrow>
   \<exists>r. rp = Response r \<and> status_code r = code \<and> server_status_of r = Inr (JStr status)"
  by (auto simp: reports_def split: reply.splits)

lemma wait_pass_again:
  assumes "pending (http w (nreq s)) code status"
    and "\<not> clock w (nclk s) - start > timeout"
  shows "wait_pass w sid status code timeout start k s = Again (polled w sid k (Suc 0) s)"
  using assms
  by (auto simp: wait_pass_def pending_def polled_def poll_events_def effect_defs
      split: reply.splits sum.splits)

lemma wait_pass_match:
  assumes "reports (http w (nreq s)) code status"
  shows "wait_pass w sid status code timeout start k s =
    Stop (Inr True)
      (s\<lparr>nreq := Suc (nreq s),
       trace := trace s @ [Http (GetServer sid) (http w (nreq s)),
                          Stdout [CHR 0x08, CHR '' '', CHR 0x0A]]\<rparr>)"
  using assms
  by (auto simp: wait_pass_def reports_def effect_defs split: reply.splits sum.splits)

lemma wait_pass_timeout:
  assumes "pending (http w (nreq s)) code status"
    and "clock w (nclk s) - start > timeout"
  shows "wait_pass w sid status code timeout start k s =
    Stop (Inr False)
      (s\<lparr>nreq := Suc (nreq s), nclk := Suc (nclk s),
       trace := trace s @ [Http (GetServer sid) (http w (nreq s)), Clock (clock w (nclk s)),
           Stdout (''Timed out waiting for server status change.'' @ [CHR 0x0A])]\<rparr>)"
  using assms
  by (auto simp: wait_pass_def pending_def effect_defs split: reply.splits sum.splits)

lemma wait_pass_bad_code:
  assumes "http w (nreq s) = Response r" and "status_code r \<noteq> code"
  shows "wait_pass w sid status code timeout start k s =
    Stop (Inr False)
      (s\<lparr>nreq := Suc (nreq s),
       trace := trace s @ [Http (GetServer sid) (Response r),
                          Stdout (error_message r @ [CHR 0x0A])]\<rparr>)"
  using assms
  by (auto simp: wait_pass_def effect_defs)

lemma wait_pass_Again_D:
  assumes "wait_pass w sid status code timeout start k s = Again s'"
  shows "pending (http w (nreq s)) code status \<and> \<not> clock w (nclk s) - start > timeout \<and>
         s' = polled w sid k (Suc 0) s"
  using assms
  by (auto simp: wait_pass_def pending_def polled_def poll_events_def effect_defs
      split: reply.splits sum.splits if_splits)

text \<open>What a pass that stops leaves in the trace, and when its result is \<open>True\<close>.\<close>

lemma wait_pass_Stop_D:
  assumes "wait_pass w sid status code timeout start k s = Stop res s'"
  shows "\<exists>evs. trace s' = trace s @ Http (GetServer sid) (http w (nreq s)) # evs \<and>
           (\<forall>c rp. Http c rp \<notin> set evs) \<and>
           (res = Inr True \<longleftrightarrow> reports (http w (nreq s)) code status)"
  using assms
  by (auto simp: wait_pass_def reports_def effect_defs
      split: reply.splits sum.splits if_splits)

subsection \<open>The polling loop\<close>

lemma polled_0: "polled w sid k 0 s = s"
  by (simp add: polled_def)

lemma polled_Suc: "polled w sid (Suc k) n (polled w sid k (Suc 0) s) = polled w sid k (Suc n) s"
  by (simp add: polled_def)

lemma wait_loop_polled:
  assumes "\<forall>i<n. pending (http w (nreq s + i)) code status \<and>
                 \<not> clock w (nclk s + i) - start > timeout"
  shows "wait_loop w sid status code timeout start k s =
         wait_loop w sid status code timeout start (k + n) (polled w sid k n s)"
  using assms
proof (induction n arbitrary: k s)
  case 0
  show ?case by (simp add: polled_0)
next
  case (Suc n)
  from Suc.prems have first: "pending (http w (nreq s)) code status"
    "\<not> clock w (nclk s) - start > timeout"
    by force+
  have rest: "\<forall>i<n. pending (http w (nreq (polled w sid k (Suc 0) s) + i)) code status \<and>
                    \<not> clock w (nclk (polled w sid k (Suc 0) s) + i) - start > timeout"
    using Suc.prems by (auto simp: polled_def)
  have "wait_loop w sid status code timeout start k s =
        wait_loop w sid status code timeout start (Suc k) (polled w sid k (Suc 0) s)"
    by (subst wait_loop.simps) (simp add: wait_pass_again [OF first])
  also have "\<dots> = wait_loop w sid status code timeout start (Suc k + n)
                     (polled w sid (Suc k) n (polled w sid k (Suc 0) s))"
    by (rule Suc.IH [OF rest])
  finally show ?case by (simp add: polled_Suc)
qed

text \<open>The loop returns exactly when, after some passes that go round again, a pass stops.\<close>

lemma wait_loop_stops:
  assumes "\<forall>i<n. pending (http w (nreq s + i)) code status \<and>
                 \<not> clock w (nclk s + i) - start > timeout"
    and "wait_pass w sid status code timeout start (k + n) (polled w sid k n s) = Stop r s'"
  shows "wait_loop w sid status code timeout start k s = Some (r, s')"
  by (subst wait_loop_polled [OF assms(1)], subst wait_loop.simps) (simp add: assms(2))

lemma wait_loop_Some_D:
  assumes "wait_loop w sid status code timeout start k s = Some y"
  shows "\<exists>n. (\<forall>i<n. pending (http w (nreq s + i)) code status \<and>
                    \<not> clock w (nclk s + i) - start > timeout) \<and>
             wait_pass w sid status code timeout start (k + n) (polled w sid k n s) =
               Stop (fst y) (snd y)"
proof (rule wait_loop.raw_induct
    [where P = "\<lambda>w sid status code timeout start k s y.
       \<exists>n. (\<forall>i<n. pending (http w (nreq s + i)) code status \<and>
                    \<not> clock w (nclk s + i) - start > timeout) \<and>
             wait_pass w sid status code timeout start (k + n) (polled w sid k n s) =
               Stop (fst y) (snd y)", OF _ assms])
  fix wl w sid status code timeout start k s y
  assume IH: "\<And>w sid status code timeout start k s y.
      wl w sid status code timeout start k s = Some y \<Longrightarrow>
      \<exists>n. (\<forall>i<n. pending (http w (nreq s + i)) code status \<and>
                   \<not> clock w (nclk s + i) - start > timeout) \<and>
            wait_pass w sid status code timeout start (k + n) (polled w sid k n s) =
              Stop (fst y) (snd y)"
    and body: "(case wait_pass w sid status code timeout start k s of
                  Stop r s' \<Rightarrow> Some (r, s')
                | Again s' \<Rightarrow> wl w sid status code timeout start (k + 1) s') = Some y"
  show "\<exists>n. (\<forall>i<n. pending (http w (nreq s + i)) code status \<and>
                   \<not> clock w (nclk s + i) - start > timeout) \<and>
            wait_pass w sid status code timeout start (k + n) (polled w sid k n s) =
              Stop (fst y) (snd y)"
  proof (cases "wait_pass w sid status code timeout start k s")
    case (Stop r s')
    with body have "y = (r, s')" by simp
    with Stop have "(\<forall>i<0::nat. pending (http w (nreq s + i)) code status \<and>
                   \<not> clock w (nclk s + i) - start > timeout) \<and>
        wait_pass w sid status code timeout start (k + 0) (polled w sid k 0 s) =
              Stop (fst y) (snd y)"
      by (simp add: polled_0)
    then show ?thesis by blast
  next
    case (Again s1)
    from wait_pass_Again_D [OF Again] have first: "pending (http w (nreq s)) code status"
      "\<not> clock w (nclk s) - start > timeout" and s1: "s1 = polled w sid k (Suc 0) s"
      by simp_all
    from Again body have "wl w sid status code timeout start (Suc k) s1 = Some y" by simp
    from IH [OF this] obtain n where
      n: "\<forall>i<n. pending (http w (nreq s1 + i)) code status \<and>
               \<not> clock w (nclk s1 + i) - start > timeout"
      and stop: "wait_pass w sid status code timeout start (Suc k + n) (polled w sid (Suc k) n s1) =
              Stop (fst y) (snd y)"
      by blast
    have "\<forall>i<Suc n. pending (http w (nreq s + i)) code status \<and>
               \<not> clock w (nclk s + i) - start > timeout"
    proof (intro allI impI)
      fix i assume "i < Suc n"
      show "pending (http w (nreq s + i)) code status \<and>
               \<not> clock w (nclk s + i) - start > timeout"
      proof (cases i)
        case 0
        with first show ?thesis by simp
      next
        case (Suc j)
        with \<open>i < Suc n\<close> have "j < n" by simp
        with n have "pending (http w (nreq s1 + j)) code status \<and>
               \<not> clock w (nclk s1 + j) - start > timeout" by blast
        with Suc s1 show ?thesis by (simp add: polled_def)
      qed
    qed
    moreover from stop s1
    have "wait_pass w sid status code timeout start (k + Suc n) (polled w sid k (Suc n) s) =
              Stop (fst y) (snd y)"
      by (simp add: polled_Suc)
    ultimately show ?thesis by blast
  qed
qed

subsection \<open>\<open>wait_for_server_status\<close>\<close>

lemma started_simps [simp]:
  "nreq (started w s) = nreq s" "nclk (started w s) = Suc (nclk s)"
  "trace (started w s) = trace s @ [Clock (clock w (nclk s))]"
  by (simp_all add: started_def time_def emit_def)

lemma wait_for_server_status_unfold:
  "wait_for_server_status w sid status code timeout s =
   wait_loop w sid status code timeout (clock w (nclk s)) 0 (started w s)"
  by (simp add: wait_for_server_status_def started_def time_def)

lemma wait_returns_True:
  assumes "\<forall>i<n. pending (http w (nreq s + i)) code status \<and>
                 \<not> clock w (Suc (nclk s + i)) - clock w (nclk s) > timeout"
    and "reports (http w (nreq s + n)) code status"
  shows "wait_for_server_status w sid status code timeout s =
    Some (Inr True,
      (s\<lparr>nreq := Suc (nreq s + n), nclk := Suc (nclk s + n),
       trace := trace s @ Clock (clock w (nclk s)) # polls w sid (nreq s) (Suc (nclk s)) 0 n @
         [Http (GetServer sid) (http w (nreq s + n)), Stdout [CHR 0x08, CHR '' '', CHR 0x0A]]\<rparr>))"
proof -
  have "wait_loop w sid status code timeout (clock w (nclk s)) 0 (started w s) =
    Some (Inr True,
      (s\<lparr>nreq := Suc (nreq s + n), nclk := Suc (nclk s + n),
       trace := trace s @ Clock (clock w (nclk s)) # polls w sid (nreq s) (Suc (nclk s)) 0 n @
         [Http (GetServer sid) (http w (nreq s + n)), Stdout [CHR 0x08, CHR '' '', CHR 0x0A]]\<rparr>))"
  proof (rule wait_loop_stops [where n = n])
    show "\<forall>i<n. pending (http w (nreq (started w s) + i)) code status \<and>
                 \<not> clock w (nclk (started w s) + i) - clock w (nclk s) > timeout"
      using assms(1) by simp
    have "reports (http w (nreq (polled w sid 0 n (started w s)))) code status"
      using assms(2) by (simp add: polled_def)
    from wait_pass_match [OF this]
    show "wait_pass w sid status code timeout (clock w (nclk s)) (0 + n)
            (polled w sid 0 n (started w s)) =
          Stop (Inr True)
      (s\<lparr>nreq := Suc (nreq s + n), nclk := Suc (nclk s + n),
       trace := trace s @ Clock (clock w (nclk s)) # polls w sid (nreq s) (Suc (nclk s)) 0 n @
         [Http (GetServer sid) (http w (nreq s + n)), Stdout [CHR 0x08, CHR '' '', CHR 0x0A]]\<rparr>)"
      by (simp add: polled_def)
  qed
  then show ?thesis by (simp add: wait_for_server_status_unfold)
qed

lemma wait_times_out:
  assumes "\<forall>i<n. pending (http w (nreq s + i)) code status \<and>
                 \<not> clock w (Suc (nclk s + i)) - clock w (nclk s) > timeout"
    and "pending (http w (nreq s + n)) code status"
    and "clock w (Suc (nclk s + n)) - clock w (nclk s) > timeout"
  shows "wait_for_server_status w sid status code timeout s =
    Some (Inr False,
      (s\<lparr>nreq := Suc (nreq s + n), nclk := Suc (Suc (nclk s + n)),
       trace := trace s @ Clock (clock w (nclk s)) # polls w sid (nreq s) (Suc (nclk s)) 0 n @
         [Http (GetServer sid) (http w (nreq s + n)), Clock (clock w (Suc (nclk s + n))),
          Stdout (''Timed out waiting for server status change.'' @ [CHR 0x0A])]\<rparr>))"
proof -
  have "wait_loop w sid status code timeout (clock w (nclk s)) 0 (started w s) =
    Some (Inr False,
      (s\<lparr>nreq := Suc (nreq s + n), nclk := Suc (Suc (nclk s + n)),
       trace := trace s @ Clock (clock w (nclk s)) # polls w sid (nreq s) (Suc (nclk s)) 0 n @
         [Http (GetServer sid) (http w (nreq s + n)), Clock (clock w (Suc (nclk s + n))),
          Stdout (''Timed out waiting for server status change.'' @ [CHR 0x0A])]\<rparr>))"
  proof (rule wait_loop_stops [where n = n])
    show "\<forall>i<n. pending (http w (nreq (started w s) + i)) code status \<and>
                 \<not> clock w (nclk (started w s) + i) - clock w (nclk s) > timeout"
      using assms(1) by simp
    have "pending (http w (nreq (polled w sid 0 n (started w s)))) code status"
      "clock w (nclk (polled w sid 0 n (started w s))) - clock w (nclk s) > timeout"
      using assms(2,3) by (simp_all add: polled_def)
    from wait_pass_timeout [OF this]
    show "wait_pass w sid status code timeout (clock w (nclk s)) (0 + n)
            (polled w sid 0 n (started w s)) =
          Stop (Inr False)
      (s\<lparr>nreq := Suc (nreq s + n), nclk := Suc (Suc (nclk s + n)),
       trace := trace s @ Clock (clock w (nclk s)) # polls w sid (nreq s) (Suc (nclk s)) 0 n @
         [Http (GetServer sid) (http w (nreq s + n)), Clock (clock w (Suc (nclk s + n))),
          Stdout (''Timed out waiting for server status change.'' @ [CHR 0x0A])]\<rparr>)"
      by (simp add: polled_def)
  qed
  then show ?thesis by (simp add: wait_for_server_status_unfold)
qed

lemma wait_bad_code:
  assumes "\<forall>i<n. pending (http w (nreq s + i)) code status \<and>
                 \<not> clock w (Suc (nclk s + i)) - clock w (nclk s) > timeout"
    and "http w (nreq s + n) = Response r"
    and "status_code r \<noteq> code"
  shows "wait_for_server_status w sid status code timeout s =
    Some (Inr False,
      (s\<lparr>nreq := Suc (nreq s + n), nclk := Suc (nclk s + n),
       trace := trace s @ Clock (clock w (nclk s)) # polls w sid (nreq s) (Suc (nclk s)) 0 n @
         [Http (GetServer sid) (Response r), Stdout (error_message r @ [CHR 0x0A])]\<rparr>))"
proof -
  have "wait_loop w sid status code timeout (clock w (nclk s)) 0 (started w s) =
    Some (Inr False,
      (s\<lparr>nreq := Suc (nreq s + n), nclk := Suc (nclk s + n),
       trace := trace s @ Clock (clock w (nclk s)) # polls w sid (nreq s) (Suc (nclk s)) 0 n @
         [Http (GetServer sid) (Response r), Stdout (error_message r @ [CHR 0x0A])]\<rparr>))"
  proof (rule wait_loop_stops [where n = n])
    show "\<forall>i<n. pending (http w (nreq (started w s) + i)) code status \<and>
                 \<not> clock w (nclk (started w s) + i) - clock w (nclk s) > timeout"
      using assms(1) by simp
    have "http w (nreq (polled w sid 0 n (started w s))) = Response r"
      using assms(2) by (simp add: polled_def)
    from wait_pass_bad_code [OF this assms(3)]
    show "wait_pass w sid status code timeout (clock w (nclk s)) (0 + n)
            (polled w sid 0 n (started w s)) =
          Stop (Inr False)
      (s\<lparr>nreq := Suc (nreq s + n), nclk := Suc (nclk s + n),
       trace := trace s @ Clock (clock w (nclk s)) # polls w sid (nreq s) (Suc (nclk s)) 0 n @
         [Http (GetServer sid) (Response r), Stdout (error_message r @ [CHR 0x0A])]\<rparr>)"
      by (simp add: polled_def)
  qed
  then show ?thesis by (simp add: wait_for_server_status_unfold)
qed

lemma wait_for_server_status_Some_D:
  assumes "wait_for_server_status w sid status code timeout s = Some (res, s')"
  shows "\<exists>evs. trace s' = trace s @ evs \<and> only_fetches sid evs \<and>
           (res = Inr True \<longleftrightarrow>
              (\<exists>rp. Http (GetServer sid) rp \<in> set evs \<and> reports rp code status))"
proof -
  from assms have "wait_loop w sid status code timeout (clock w (nclk s)) 0 (started w s) =
      Some (res, s')"
    by (simp add: wait_for_server_status_unfold)
  from wait_loop_Some_D [OF this] obtain n where
    n: "\<forall>i<n. pending (http w (nreq s + i)) code status \<and>
              \<not> clock w (Suc (nclk s) + i) - clock w (nclk s) > timeout"
    and stop: "wait_pass w sid status code timeout (clock w (nclk s)) (0 + n)
                 (polled w sid 0 n (started w s)) = Stop res s'"
    by auto
  from wait_pass_Stop_D [OF stop] obtain evs where
    evs: "trace s' = trace s @ Clock (clock w (nclk s)) #
            polls w sid (nreq s) (Suc (nclk s)) 0 n @
            Http (GetServer sid) (http w (nreq s + n)) # evs"
    and none: "\<forall>c rp. Http c rp \<notin> set evs"
    and res: "res = Inr True \<longleftrightarrow> reports (http w (nreq s + n)) code status"
    by (auto simp: polled_def)
  let ?all = "Clock (clock w (nclk s)) # polls w sid (nreq s) (Suc (nclk s)) 0 n @
            Http (GetServer sid) (http w (nreq s + n)) # evs"
  have fetches: "only_fetches sid ?all"
    using none by (simp add: only_fetches_append only_fetches_polls no_requests_only_fetches)
  have "res = Inr True \<longleftrightarrow> (\<exists>rp. Http (GetServer sid) rp \<in> set ?all \<and> reports rp code status)"
  proof
    assume "res = Inr True"
    with res have "Http (GetServer sid) (http w (nreq s + n)) \<in> set ?all \<and>
                   reports (http w (nreq s + n)) code status" by simp
    then show "\<exists>rp. Http (GetServer sid) rp \<in> set ?all \<and> reports rp code status" by blast
  next
    assume "\<exists>rp. Http (GetServer sid) rp \<in> set ?all \<and> reports rp code status"
    then obtain rp where rp: "Http (GetServer sid) rp \<in> set ?all" "reports rp code status"
      by blast
    from rp(1) none
    consider "Http (GetServer sid) rp \<in> set (polls w sid (nreq s) (Suc (nclk s)) 0 n)"
      | "rp = http w (nreq s + n)"
      by auto
    then show "res = Inr True"
    proof cases
      case 1
      from polls_fetch [OF this] obtain i where "i < n" "rp = http w (nreq s + i)" by blast
      with n have "pending rp code status" by simp
      with rp(2) show ?thesis by (simp add: pending_not_reports)
    next
      case 2
      with rp(2) res show ?thesis by simp
    qed
  qed
  with evs fetches show ?thesis by blast
qed

subsection \<open>The steps\<close>

lemma server_is_running_200:
  assumes "http w (nreq s) = Response r" "status_code r = 200" "server_status_of r = Inr v"
  shows "server_is_running w sid s =
         (Inr (Some (v = JStr ''running'')),
          (s\<lparr>nreq := Suc (nreq s),
       trace := trace s @ [Http (GetServer sid) (Response r)]\<rparr>))"
  using assms by (simp add: server_is_running_def effect_defs)

lemma stop_server_rejected:
  assumes "http w (nreq s) = Response r" and "status_code r \<noteq> 201"
  shows "stop_server w sid s =
    Some (Inr False,
      (s\<lparr>nreq := Suc (nreq s),
         trace := trace s @ [Http (ServerAction sid ''poweroff'') (Response r),
                             Line (error_message r)]\<rparr>))"
  using assms by (simp add: stop_server_def effect_defs)

lemma stop_server_accepted:
  assumes "http w (nreq s) = Response r" and "status_code r = 201"
  shows "stop_server w sid s =
     (case wait_for_server_status w sid ''off'' 200 300
             (s\<lparr>nreq := Suc (nreq s),
                trace := trace s @ [Http (ServerAction sid ''poweroff'') (Response r),
                                    Line ''Server stopping...'']\<rparr>) of
        None \<Rightarrow> None
      | Some (Inl e, s2) \<Rightarrow> Some (Inl e, s2)
      | Some (Inr True, s2) \<Rightarrow>
          Some (Inr True,
            sleep 5 (print ''Waiting 5 seconds before proceeding.''
              (print ''Server stopped successfully.'' s2)))
      | Some (Inr False, s2) \<Rightarrow> Some (Inr False, print ''Failed to stop server.'' s2))"
  using assms by (simp add: stop_server_def effect_defs)

lemma stop_server_times_out:
  assumes "http w (nreq s) = Response r1" "status_code r1 = 201"
    and "\<forall>i<n. pending (http w (Suc (nreq s) + i)) 200 ''off'' \<and>
                 \<not> clock w (Suc (nclk s + i)) - clock w (nclk s) > 300"
    and "pending (http w (Suc (nreq s) + n)) 200 ''off''"
    and "clock w (Suc (nclk s + n)) - clock w (nclk s) > 300"
  shows "stop_server w sid s =
    Some (Inr False,
      (s\<lparr>nreq := Suc (Suc (nreq s + n)), nclk := Suc (Suc (nclk s + n)),
       trace := trace s @ [Http (ServerAction sid ''poweroff'') (Response r1), Line ''Server stopping...'',
             Clock (clock w (nclk s))] @ polls w sid (Suc (nreq s)) (Suc (nclk s)) 0 n @
         [Http (GetServer sid) (http w (Suc (nreq s) + n)), Clock (clock w (Suc (nclk s + n))),
          Line ''Timed out waiting for server status change.'',
          Line ''Failed to stop server.'']\<rparr>))"
proof -
  let ?s1 = "(s\<lparr>nreq := Suc (nreq s),
       trace := trace s @ [Http (ServerAction sid ''poweroff'') (Response r1), Line ''Server stopping...'']\<rparr>)"
  have "wait_for_server_status w sid ''off'' 200 300 ?s1 = 
      Some (Inr False,
      (?s1\<lparr>nreq := Suc (nreq ?s1 + n), nclk := Suc (Suc (nclk ?s1 + n)),
       trace := trace ?s1 @ Clock (clock w (nclk ?s1)) # polls w sid (nreq ?s1) (Suc (nclk ?s1)) 0 n @
         [Http (GetServer sid) (http w (nreq ?s1 + n)), Clock (clock w (Suc (nclk ?s1 + n))),
          Stdout (''Timed out waiting for server status change.'' @ [CHR 0x0A])]\<rparr>))"
    by (rule wait_times_out) (use assms in simp_all)
  then show ?thesis
    using assms(1,2) by (simp add: stop_server_def effect_defs)
qed

lemma stop_server_succeeds:
  assumes "http w (nreq s) = Response r1" "status_code r1 = 201"
    and "\<forall>i<n. pending (http w (Suc (nreq s) + i)) 200 ''off'' \<and>
                 \<not> clock w (Suc (nclk s + i)) - clock w (nclk s) > 300"
    and "reports (http w (Suc (nreq s) + n)) 200 ''off''"
  shows "stop_server w sid s =
    Some (Inr True,
      (s\<lparr>nreq := Suc (Suc (nreq s + n)), nclk := Suc (nclk s + n),
       trace := trace s @ [Http (ServerAction sid ''poweroff'') (Response r1), Line ''Server stopping...'',
             Clock (clock w (nclk s))] @ polls w sid (Suc (nreq s)) (Suc (nclk s)) 0 n @
         [Http (GetServer sid) (http w (Suc (nreq s) + n)), Stdout [CHR 0x08, CHR '' '', CHR 0x0A],
          Line ''Server stopped successfully.'',
          Line ''Waiting 5 seconds before proceeding.'', Sleep 5]\<rparr>))"
proof -
  let ?s1 = "(s\<lparr>nreq := Suc (nreq s),
       trace := trace s @ [Http (ServerAction sid ''poweroff'') (Response r1), Line ''Server stopping...'']\<rparr>)"
  have "wait_for_server_status w sid ''off'' 200 300 ?s1 = 
      Some (Inr True,
      (?s1\<lparr>nreq := Suc (nreq ?s1 + n), nclk := Suc (nclk ?s1 + n),
       trace := trace ?s1 @ Clock (clock w (nclk ?s1)) # polls w sid (nreq ?s1) (Suc (nclk ?s1)) 0 n @
         [Http (GetServer sid) (http w (nreq ?s1 + n)), Stdout [CHR 0x08, CHR '' '', CHR 0x0A]]\<rparr>))"
    by (rule wait_returns_True) (use assms in simp_all)
  then show ?thesis
    using assms(1,2) by (simp add: stop_server_def effect_defs)
qed

lemma stop_server_Some_D:
  assumes "stop_server w sid s = Some (res, s')"
  shows "\<exists>evs. trace s' = trace s @ evs \<and> (\<forall>e \<in> set evs. \<not> is_change_type e)"
proof (cases "http w (nreq s)")
  case Raised
  with assms show ?thesis
    by (auto simp: stop_server_def effect_defs)
next
  case (Response r)
  show ?thesis
  proof (cases "status_code r = 201")
    case False
    with Response assms show ?thesis
      by (auto simp: stop_server_rejected)
  next
    case True
    let ?s1 = "(s\<lparr>nreq := Suc (nreq s),
                trace := trace s @ [Http (ServerAction sid ''poweroff'') (Response r),
                                    Line ''Server stopping...'']\<rparr>)"
    from assms Response True obtain r2 s2 where
      wait: "wait_for_server_status w sid ''off'' 200 300 ?s1 = Some (r2, s2)"
      and fin: "s' = s2 \<or> s' = print ''Failed to stop server.'' s2 \<or>
                s' = sleep 5 (print ''Waiting 5 seconds before proceeding.''
                       (print ''Server stopped successfully.'' s2))"
      by (auto simp: stop_server_accepted split: option.splits sum.splits bool.splits)
    from wait_for_server_status_Some_D [OF wait] obtain evs where
      evs: "trace s2 = trace ?s1 @ evs" "only_fetches sid evs"
      by blast
    from evs(2) have "\<forall>e \<in> set evs. \<not> is_change_type e"
      by (blast dest: only_fetches_no_change_type)
    with fin evs(1) show ?thesis
      by (auto simp: print_def emit_def sleep_def)
  qed
qed

lemma scale_server_rejected:
  assumes "http w (nreq s) = Response r" and "status_code r \<noteq> 201"
  shows "scale_server w sid ty up s =
    (Inr False,
      (s\<lparr>nreq := Suc (nreq s),
         trace := trace s @ [Http (ChangeServerType sid ty up) (Response r),
                             Line (error_message r)]\<rparr>))"
  using assms by (simp add: scale_server_def effect_defs)

lemma scale_server_accepted:
  assumes "http w (nreq s) = Response r" and "status_code r = 201"
  shows "scale_server w sid ty up s =
    (Inr True,
      (s\<lparr>nreq := Suc (nreq s),
         trace := trace s @ [Http (ChangeServerType sid ty up) (Response r),
                             Line (''Server scaling to '' @ ty @ '' started successfully.'')]\<rparr>))"
  using assms by (simp add: scale_server_def effect_defs)

lemma main_scale_succeeds:
  assumes "http w (nreq s) = Response r2" "status_code r2 = 201"
    and "\<forall>i<m. pending (http w (Suc (nreq s) + i)) 200 ''running'' \<and>
                 \<not> clock w (Suc (nclk s + i)) - clock w (nclk s) > 300"
    and "reports (http w (Suc (nreq s) + m)) 200 ''running''"
  shows "main_scale g w s =
    Some (Returned,
      (s\<lparr>nreq := Suc (Suc (nreq s + m)), nclk := Suc (nclk s + m),
       trace := trace s @
         [Http (ChangeServerType (server_id g) (server_type g) (upgrade_disk g)) (Response r2),
          Line (''Server scaling to '' @ server_type g @ '' started successfully.''),
          Line ''Waiting for server to boot.'',
          Clock (clock w (nclk s))] @ polls w (server_id g) (Suc (nreq s)) (Suc (nclk s)) 0 m @
         [Http (GetServer (server_id g)) (http w (Suc (nreq s) + m)),
          Stdout [CHR 0x08, CHR '' '', CHR 0x0A],
          Line ''Rescaled server now accessible'']\<rparr>))"
proof -
  let ?s1 = "(s\<lparr>nreq := Suc (nreq s),
       trace := trace s @
         [Http (ChangeServerType (server_id g) (server_type g) (upgrade_disk g)) (Response r2),
          Line (''Server scaling to '' @ server_type g @ '' started successfully.''),
          Line ''Waiting for server to boot.'']\<rparr>)"
  have "wait_for_server_status w (server_id g) ''running'' 200 300 ?s1 = 
      Some (Inr True,
      (?s1\<lparr>nreq := Suc (nreq ?s1 + m), nclk := Suc (nclk ?s1 + m),
       trace := trace ?s1 @ Clock (clock w (nclk ?s1)) #
         polls w (server_id g) (nreq ?s1) (Suc (nclk ?s1)) 0 m @
         [Http (GetServer (server_id g)) (http w (nreq ?s1 + m)),
          Stdout [CHR 0x08, CHR '' '', CHR 0x0A]]\<rparr>))"
    by (rule wait_returns_True) (use assms in simp_all)
  then show ?thesis
    using assms(1,2) by (simp add: main_scale_def scale_server_def effect_defs)
qed

lemma main_scale_Some_D:
  assumes "main_scale g w s = Some (out, s')"
  shows "\<exists>evs. trace s' = trace s @
             Http (ChangeServerType (server_id g) (server_type g) (upgrade_disk g))
               (http w (nreq s)) # evs \<and>
           only_fetches (server_id g) evs \<and>
           (\<forall>r. http w (nreq s) = Response r \<and> status_code r = 201 \<longrightarrow>
              (out = Returned \<longleftrightarrow>
                 (\<exists>rp. Http (GetServer (server_id g)) rp \<in> set evs \<and>
                       reports rp 200 ''running'')))"
proof (cases "http w (nreq s)")
  case Raised
  with assms show ?thesis
    by (auto simp: main_scale_def scale_server_def effect_defs)
next
  case (Response r)
  show ?thesis
  proof (cases "status_code r = 201")
    case False
    with Response assms show ?thesis
      by (auto simp: main_scale_def scale_server_rejected)
  next
    case True
    let ?s1 = "print ''Waiting for server to boot.''
                 (s\<lparr>nreq := Suc (nreq s),
                    trace := trace s @
                      [Http (ChangeServerType (server_id g) (server_type g) (upgrade_disk g))
                         (Response r),
                       Line (''Server scaling to '' @ server_type g @ '' started successfully.'')]\<rparr>)"
    from assms Response True obtain res s2 where
      wait: "wait_for_server_status w (server_id g) ''running'' 200 300 ?s1 = Some (res, s2)"
      and fin: "(out, s') =
        (case res of
           Inl e \<Rightarrow> (Uncaught e, s2)
         | Inr False \<Rightarrow> (SysExit ''Failed to restart rescaled server.'', s2)
         | Inr True \<Rightarrow> (Returned, print ''Rescaled server now accessible'' s2))"
      by (auto simp: main_scale_def scale_server_accepted split: option.splits sum.splits bool.splits)
    from wait_for_server_status_Some_D [OF wait] obtain evs where
      evs: "trace s2 = trace ?s1 @ evs" "only_fetches (server_id g) evs"
      "res = Inr True \<longleftrightarrow>
         (\<exists>rp. Http (GetServer (server_id g)) rp \<in> set evs \<and> reports rp 200 ''running'')"
      by blast
    show ?thesis
    proof (cases res)
      case (Inl e)
      with fin evs Response True show ?thesis
        by (auto simp: print_def emit_def only_fetches_append)
    next
      case (Inr b)
      with fin evs Response True show ?thesis
        by (cases b) (auto simp: print_def emit_def only_fetches_append)
    qed
  qed
qed

subsection \<open>\<open>main\<close>\<close>

lemma main_confirmed:
  assumes "stdin w = Some confirm" "lower confirm = ''y''"
  shows "main g w init =
     (case server_is_running w (server_id g)
        \<lparr>nreq = 0, nclk = 0,
         trace = [Line ''The server will be stopped if it is already running, to rescale it.'',
                  Input (confirm_prompt g)]\<rparr> of
               (Inl e, s2) \<Rightarrow> Some (Uncaught e, s2)
             | (Inr None, s2) \<Rightarrow>
                 Some (SysExit ''Aborted.'',
                   print ''Error occurred while checking server's running status.'' s2)
             | (Inr (Some True), s2) \<Rightarrow>
                 (case stop_server w (server_id g) (print ''Server is currently running.'' s2) of
                    None \<Rightarrow> None
                  | Some (Inl e, s3) \<Rightarrow> Some (Uncaught e, s3)
                  | Some (Inr False, s3) \<Rightarrow> Some (SysExit ''Aborted.'', s3)
                  | Some (Inr True, s3) \<Rightarrow> main_scale g w s3)
             | (Inr (Some False), s2) \<Rightarrow> main_scale g w (print ''Server is not running.'' s2))"
  using assms by (simp add: main_def input_def init_def effect_defs)

lemma main_declined:
  assumes "stdin w = Some confirm" "lower confirm \<noteq> ''y''"
  shows "main g w init =
     Some (SysExit ''Aborted.'',
        \<lparr>nreq = 0, nclk = 0,
         trace = [Line ''The server will be stopped if it is already running, to rescale it.'',
                  Input (confirm_prompt g)]\<rparr>)"
  using assms by (simp add: main_def input_def init_def effect_defs)

text \<open>
  A run of \<open>main\<close> that ends either never sent a change_type request, or went through
  lines 201 to 209 from a state whose trace holds none.
\<close>

lemma main_Some_D:
  assumes "main g w init = Some (out, s')"
  shows "(\<forall>e \<in> set (trace s'). \<not> is_change_type e) \<or>
         (\<exists>s1. main_scale g w s1 = Some (out, s') \<and> (\<forall>e \<in> set (trace s1). \<not> is_change_type e))"
proof (cases "stdin w")
  case None
  with assms show ?thesis
    by (auto simp: main_def input_def init_def effect_defs)
next
  case (Some confirm)
  show ?thesis
  proof (cases "lower confirm = ''y''")
    case False
    with Some assms show ?thesis
      by (auto simp: main_declined)
  next
    case True
    let ?s1 = "\<lparr>nreq = 0, nclk = 0,
         trace = [Line ''The server will be stopped if it is already running, to rescale it.'',
                  Input (confirm_prompt g)]\<rparr>"
    obtain chk s2 where chk: "server_is_running w (server_id g) ?s1 = (chk, s2)"
      by (cases "server_is_running w (server_id g) ?s1") auto
    then have s2: "\<forall>e \<in> set (trace s2). \<not> is_change_type e"
      by (auto simp: server_is_running_def effect_defs
          split: reply.splits sum.splits if_splits)
    from assms have run: "(case chk of
               Inl e \<Rightarrow> Some (Uncaught e, s2)
             | Inr None \<Rightarrow>
                 Some (SysExit ''Aborted.'',
                   print ''Error occurred while checking server's running status.'' s2)
             | Inr (Some True) \<Rightarrow>
                 (case stop_server w (server_id g) (print ''Server is currently running.'' s2) of
                    None \<Rightarrow> None
                  | Some (Inl e, s3) \<Rightarrow> Some (Uncaught e, s3)
                  | Some (Inr False, s3) \<Rightarrow> Some (SysExit ''Aborted.'', s3)
                  | Some (Inr True, s3) \<Rightarrow> main_scale g w s3)
             | Inr (Some False) \<Rightarrow> main_scale g w (print ''Server is not running.'' s2)) =
          Some (out, s')"
      using chk by (simp add: main_confirmed [OF Some True])
    show ?thesis
    proof (cases chk)
      case (Inl e)
      with run s2 show ?thesis by auto
    next
      case (Inr running)
      show ?thesis
      proof (cases running)
        case None
        with Inr run s2 show ?thesis by (auto simp: print_def emit_def)
      next
        case (Some b)
        show ?thesis
        proof (cases b)
          case False
          with Some Inr run have "main_scale g w (print ''Server is not running.'' s2) = Some (out, s')"
            by simp
          moreover from s2
          have "\<forall>e \<in> set (trace (print ''Server is not running.'' s2)). \<not> is_change_type e"
            by (auto simp: print_def emit_def)
          ultimately show ?thesis by blast
        next
          case True
          let ?s3 = "print ''Server is currently running.'' s2"
          from True Some Inr run obtain res s4 where
            stop: "stop_server w (server_id g) ?s3 = Some (res, s4)"
            and fin: "(case res of
                  Inl e \<Rightarrow> Some (Uncaught e, s4)
                | Inr False \<Rightarrow> Some (SysExit ''Aborted.'', s4)
                | Inr True \<Rightarrow> main_scale g w s4) = Some (out, s')"
            by (auto split: option.splits sum.splits bool.splits)
          from stop_server_Some_D [OF stop] s2
          have s4: "\<forall>e \<in> set (trace s4). \<not> is_change_type e"
            by (auto simp: print_def emit_def)
          show ?thesis
          proof (cases res)
            case (Inl e)
            with fin s4 show ?thesis by auto
          next
            case (Inr ok)
            with fin s4 show ?thesis by (cases ok) auto
          qed
        qed
      qed
    qed
  qed
qed

lemma accepted_change_type_D:
  assumes "main g w init = Some (out, s')"
    and "trace s' = pre @ Http (ChangeServerType sid ty up) (Response r) # post"
    and "status_code r = 201"
  shows "only_fetches (server_id g) post \<and>
         (\<forall>c rp. Http c rp \<in> set post \<longrightarrow> \<not> is_action c) \<and>
         (out = Returned \<longleftrightarrow>
            (\<exists>rp. Http (GetServer (server_id g)) rp \<in> set post \<and> reports rp 200 ''running'')) \<and>
         (exit_status out = 0 \<longleftrightarrow> out = Returned)"
proof -
  have ct: "is_change_type (Http (ChangeServerType sid ty up) (Response r))" by simp
  from main_Some_D [OF assms(1)] assms(2) ct
  obtain s1 where s1: "main_scale g w s1 = Some (out, s')"
    "\<forall>e \<in> set (trace s1). \<not> is_change_type e"
    by auto
  from main_scale_Some_D [OF s1(1)] obtain evs where
    evs: "trace s' = trace s1 @
             Http (ChangeServerType (server_id g) (server_type g) (upgrade_disk g))
               (http w (nreq s1)) # evs"
    and fetches: "only_fetches (server_id g) evs"
    and ret: "\<forall>r. http w (nreq s1) = Response r \<and> status_code r = 201 \<longrightarrow>
              (out = Returned \<longleftrightarrow>
                 (\<exists>rp. Http (GetServer (server_id g)) rp \<in> set evs \<and>
                       reports rp 200 ''running''))"
    by blast
  from fetches have noct: "\<forall>e \<in> set evs. \<not> is_change_type e"
    by (blast dest: only_fetches_no_change_type)
  have "trace s1 @
             Http (ChangeServerType (server_id g) (server_type g) (upgrade_disk g))
               (http w (nreq s1)) # evs =
        pre @ Http (ChangeServerType sid ty up) (Response r) # post"
    using evs assms(2) by simp
  from split_unique [OF s1(2) noct _ ct this]
  have same: "http w (nreq s1) = Response r" "evs = post" by simp_all
  have "\<forall>c rp. Http c rp \<in> set post \<longrightarrow> \<not> is_action c"
  proof (intro allI impI)
    fix c rp assume "Http c rp \<in> set post"
    with fetches same have "c = GetServer (server_id g)" by (blast dest: only_fetches_D)
    then show "\<not> is_action c" by (simp add: is_action_def)
  qed
  moreover have "exit_status out = 0 \<longleftrightarrow> out = Returned"
    by (cases out) simp_all
  ultimately show ?thesis
    using fetches same ret assms(3) by simp
qed

lemma main_scale_rejected:
  assumes "http w (nreq s) = Response r" and "status_code r \<noteq> 201"
  shows "main_scale g w s =
        Some (SysExit ''Aborted.'',
          (s\<lparr>nreq := Suc (nreq s),
             trace := trace s @
               [Http (ChangeServerType (server_id g) (server_type g) (upgrade_disk g)) (Response r),
                Line (''Error '' @ str_int (status_code r) @ '': '' @ resp_text r)]\<rparr>))"
  using assms by (simp add: main_scale_def scale_server_rejected error_message_def)

lemma main_poweroff_rejected:
  assumes "stdin w = Some confirm" and "lower confirm = ''y''"
    and "reports (http w 0) 200 ''running''"
    and "http w 1 = Response r" and "status_code r \<noteq> 201"
  shows "main g w init =
        Some (SysExit ''Aborted.'',
          \<lparr>nreq = 2, nclk = 0,
           trace =
             [Line ''The server will be stopped if it is already running, to rescale it.'',
              Input (confirm_prompt g),
              Http (GetServer (server_id g)) (http w 0),
              Line ''Server is currently running.'',
              Http (ServerAction (server_id g) ''poweroff'') (Response r),
              Line (''Error '' @ str_int (status_code r) @ '': '' @ resp_text r)]\<rparr>)"
proof -
  from reportsD [OF assms(3)] obtain r0 where r0: "http w 0 = Response r0"
    "status_code r0 = 200" "server_status_of r0 = Inr (JStr ''running'')" by blast
  let ?s1 = "\<lparr>nreq = 1, nclk = 0,
       trace =
         [Line ''The server will be stopped if it is already running, to rescale it.'',
          Input (confirm_prompt g),
          Http (GetServer (server_id g)) (http w 0),
          Line ''Server is currently running.'']\<rparr>"
  have check: "server_is_running w (server_id g)
        \<lparr>nreq = 0, nclk = 0,
         trace = [Line ''The server will be stopped if it is already running, to rescale it.'',
                  Input (confirm_prompt g)]\<rparr> =
        (Inr (Some True),
         \<lparr>nreq = 1, nclk = 0,
       trace =
         [Line ''The server will be stopped if it is already running, to rescale it.'',
          Input (confirm_prompt g),
          Http (GetServer (server_id g)) (http w 0)]\<rparr>)"
    using r0 by (simp add: server_is_running_def effect_defs)
  have stop: "stop_server w (server_id g) ?s1 =
    Some (Inr False,
      \<lparr>nreq = 2, nclk = 0,
       trace = trace ?s1 @ [Http (ServerAction (server_id g) ''poweroff'') (Response r),
                           Line (error_message r)]\<rparr>)"
    using stop_server_rejected [of w ?s1 r "server_id g"] assms(4,5) by simp
  show ?thesis
    using check stop
    by (simp add: main_confirmed [OF assms(1,2)] print_def emit_def error_message_def)
qed

lemma main_change_type_rejected_not_running:
  assumes "stdin w = Some confirm" and "lower confirm = ''y''"
    and "http w 0 = Response r0" and "status_code r0 = 200"
    and "server_status_of r0 = Inr v" and "v \<noteq> JStr ''running''"
    and "http w 1 = Response r" and "status_code r \<noteq> 201"
  shows "main g w init =
        Some (SysExit ''Aborted.'',
          \<lparr>nreq = 2, nclk = 0,
           trace =
             [Line ''The server will be stopped if it is already running, to rescale it.'',
              Input (confirm_prompt g),
              Http (GetServer (server_id g)) (Response r0),
              Line ''Server is not running.'',
              Http (ChangeServerType (server_id g) (server_type g) (upgrade_disk g)) (Response r),
              Line (''Error '' @ str_int (status_code r) @ '': '' @ resp_text r)]\<rparr>)"
proof -
  let ?s1 = "\<lparr>nreq = 1, nclk = 0,
              trace =
                [Line ''The server will be stopped if it is already running, to rescale it.'',
                 Input (confirm_prompt g),
                 Http (GetServer (server_id g)) (Response r0),
                 Line ''Server is not running.'']\<rparr>"
  have check: "server_is_running w (server_id g)
        \<lparr>nreq = 0, nclk = 0,
         trace = [Line ''The server will be stopped if it is already running, to rescale it.'',
                  Input (confirm_prompt g)]\<rparr> =
        (Inr (Some False),
         \<lparr>nreq = 1, nclk = 0,
       trace =
         [Line ''The server will be stopped if it is already running, to rescale it.'',
          Input (confirm_prompt g),
          Http (GetServer (server_id g)) (Response r0)]\<rparr>)"
    using assms(3-6) by (simp add: server_is_running_def effect_defs)
  have skip: "main g w init = main_scale g w ?s1"
    using check by (simp add: main_confirmed [OF assms(1,2)] print_def emit_def)
  show ?thesis
    using main_scale_rejected [of w ?s1 r g] assms(7,8) by (simp add: skip)
qed

lemma main_change_type_rejected_after_stop:
  assumes "stdin w = Some confirm" and "lower confirm = ''y''"
    and "reports (http w 0) 200 ''running''"
    and "http w 1 = Response r1" and "status_code r1 = 201"
    and "\<forall>i<n. pending (http w (2 + i)) 200 ''off'' \<and> \<not> clock w (1 + i) - clock w 0 > 300"
    and "reports (http w (2 + n)) 200 ''off''"
    and "http w (3 + n) = Response r" and "status_code r \<noteq> 201"
  shows "main g w init =
    Some (SysExit ''Aborted.'',
      \<lparr>nreq = 4 + n, nclk = 1 + n,
       trace =
         [Line ''The server will be stopped if it is already running, to rescale it.'',
          Input (confirm_prompt g),
          Http (GetServer (server_id g)) (http w 0),
          Line ''Server is currently running.'',
          Http (ServerAction (server_id g) ''poweroff'') (Response r1),
          Line ''Server stopping...'',
          Clock (clock w 0)] @
         polls w (server_id g) 2 1 0 n @
         [Http (GetServer (server_id g)) (http w (2 + n)),
          Stdout [CHR 0x08, CHR '' '', CHR 0x0A],
          Line ''Server stopped successfully.'',
          Line ''Waiting 5 seconds before proceeding.'',
          Sleep 5,
          Http (ChangeServerType (server_id g) (server_type g) (upgrade_disk g)) (Response r),
          Line (''Error '' @ str_int (status_code r) @ '': '' @ resp_text r)]\<rparr>)"
proof -
  from reportsD [OF assms(3)] obtain r0 where r0: "http w 0 = Response r0"
    "status_code r0 = 200" "server_status_of r0 = Inr (JStr ''running'')" by blast
  let ?s1 = "\<lparr>nreq = 1, nclk = 0,
       trace =
         [Line ''The server will be stopped if it is already running, to rescale it.'',
          Input (confirm_prompt g),
          Http (GetServer (server_id g)) (http w 0),
          Line ''Server is currently running.'']\<rparr>"
  let ?s2 = "\<lparr>nreq = 3 + n, nclk = 1 + n,
       trace = trace ?s1 @ [Http (ServerAction (server_id g) ''poweroff'') (Response r1),
             Line ''Server stopping...'',
             Clock (clock w 0)] @ polls w (server_id g) 2 1 0 n @
         [Http (GetServer (server_id g)) (http w (2 + n)), Stdout [CHR 0x08, CHR '' '', CHR 0x0A],
          Line ''Server stopped successfully.'',
          Line ''Waiting 5 seconds before proceeding.'', Sleep 5]\<rparr>"
  have check: "server_is_running w (server_id g)
        \<lparr>nreq = 0, nclk = 0,
         trace = [Line ''The server will be stopped if it is already running, to rescale it.'',
                  Input (confirm_prompt g)]\<rparr> =
        (Inr (Some True),
         \<lparr>nreq = 1, nclk = 0,
       trace =
         [Line ''The server will be stopped if it is already running, to rescale it.'',
          Input (confirm_prompt g),
          Http (GetServer (server_id g)) (http w 0)]\<rparr>)"
    using r0 by (simp add: server_is_running_def effect_defs)
  have stop: "stop_server w (server_id g) ?s1 = Some (Inr True, ?s2)"
    using stop_server_succeeds [of w ?s1 r1 n "server_id g"] assms(4-7)
    by (simp add: numeral_2_eq_2 numeral_3_eq_3)
  have scale: "main_scale g w ?s2 = Some (SysExit ''Aborted.'',
      \<lparr>nreq = 4 + n, nclk = 1 + n,
       trace = trace ?s2 @
         [Http (ChangeServerType (server_id g) (server_type g) (upgrade_disk g)) (Response r),
          Line (''Error '' @ str_int (status_code r) @ '': '' @ resp_text r)]\<rparr>)"
    using main_scale_rejected [of w ?s2 r g] assms(8,9)
    by (simp add: eval_nat_numeral)
  show ?thesis
    using check stop scale
    by (simp add: main_confirmed [OF assms(1,2)] print_def emit_def)
qed

subsection \<open>The decimal rendering of integers\<close>

text \<open>
  \<open>str_int\<close> writes the canonical decimal numeral: it reads back as the number, and for
  a number that is not negative it consists of digits, without a leading zero.
\<close>

lemma of_char_digit_char: "d < 10 \<Longrightarrow> (of_char (digit_char d) :: nat) = 48 + d"
  by (simp add: digit_char_def)

lemma nat_of_str_snoc: "nat_of_str (s @ [c]) = 10 * nat_of_str s + (of_char c - 48)"
  by (simp add: nat_of_str_def)

lemma nat_of_str_str_nat: "nat_of_str (str_nat n) = n"
proof (induction n rule: str_nat.induct)
  case (1 n)
  show ?case
  proof (cases "n < 10")
    case True
    then show ?thesis
      by (subst str_nat.simps) (simp add: nat_of_str_def of_char_digit_char)
  next
    case False
    with "1" have "nat_of_str (str_nat (n div 10)) = n div 10" by simp
    with False show ?thesis
      by (subst str_nat.simps) (simp add: nat_of_str_snoc of_char_digit_char)
  qed
qed

lemma str_nat_digits: "c \<in> set (str_nat n) \<Longrightarrow> is_digit c"
proof (induction n rule: str_nat.induct)
  case (1 n)
  show ?case
  proof (cases "n < 10")
    case True
    with "1.prems" show ?thesis
      by (subst (asm) str_nat.simps) (simp add: is_digit_def of_char_digit_char)
  next
    case False
    with "1.prems" "1.IH" show ?thesis
      by (subst (asm) str_nat.simps) (auto simp: is_digit_def of_char_digit_char)
  qed
qed

lemma str_nat_not_Nil: "str_nat n \<noteq> []"
  by (subst str_nat.simps) simp

lemma str_nat_no_leading_zero: "0 < n \<Longrightarrow> hd (str_nat n) \<noteq> CHR ''0''"
proof (induction n rule: str_nat.induct)
  case (1 n)
  show ?case
  proof (cases "n < 10")
    case True
    have "(of_char (digit_char n) :: nat) \<noteq> of_char (CHR ''0'')"
      using True "1.prems" by (simp add: of_char_digit_char)
    then have "digit_char n \<noteq> CHR ''0''" by auto
    with True show ?thesis
      by (subst str_nat.simps) simp
  next
    case False
    then have "0 < n div 10" by simp
    with "1.IH" False have "hd (str_nat (n div 10)) \<noteq> CHR ''0''" by simp
    with False show ?thesis
      by (subst str_nat.simps) (simp add: str_nat_not_Nil)
  qed
qed

lemma int_of_str_str_int: "int_of_str (str_int i) = i"
proof (cases "i < 0")
  case True
  then show ?thesis
    by (simp add: str_int_def int_of_str_def nat_of_str_str_nat)
next
  case False
  have "hd (str_nat (nat i)) \<noteq> CHR ''-''"
  proof
    assume "hd (str_nat (nat i)) = CHR ''-''"
    moreover have "hd (str_nat (nat i)) \<in> set (str_nat (nat i))"
      by (simp add: str_nat_not_Nil)
    ultimately have "is_digit (CHR ''-'')" by (metis str_nat_digits)
    then show False by (simp add: is_digit_def)
  qed
  moreover obtain c cs where cs: "str_nat (nat i) = c # cs"
    using str_nat_not_Nil [of "nat i"] by (cases "str_nat (nat i)") auto
  ultimately have "int_of_str (str_nat (nat i)) = int (nat_of_str (str_nat (nat i)))"
    by (simp add: int_of_str_def)
  with False show ?thesis
    by (simp add: str_int_def nat_of_str_str_nat)
qed

section \<open>The claims\<close>

text \<open>
  Claim C1. When the operator's answer to the confirmation prompt is not affirmative
  (\<open>confirm.lower()\<close> is not \<open>y\<close>), the run ends with \<open>sys.exit("Aborted.")\<close>, exit
  status 1, after the banner and the prompt and nothing else: no request at all is sent,
  so none to a state-changing endpoint. The same holds for the whole script, whatever the
  command line and the configuration file.
\<close>

theorem declined_confirmation_aborts:
  assumes "stdin w = Some confirm" and "lower confirm \<noteq> ''y''"
  shows "main g w init =
           Some (SysExit ''Aborted.'',
             \<lparr>nreq = 0, nclk = 0,
              trace = [Line ''The server will be stopped if it is already running, to rescale it.'',
                       Input (confirm_prompt g)]\<rparr>) \<and>
         exit_status (SysExit ''Aborted.'') \<noteq> 0 \<and>
         (\<exists>out s'. script c files w = Some (out, s') \<and> exit_status out \<noteq> 0 \<and>
            (\<forall>call rp. Http call rp \<notin> set (trace s')))"
proof -
  have "\<exists>out s'. script c files w = Some (out, s') \<and> exit_status out \<noteq> 0 \<and>
            (\<forall>call rp. Http call rp \<notin> set (trace s'))"
  proof (cases "parse_args c")
    case None
    then show ?thesis by (simp add: script_def init_def)
  next
    case (Some a)
    show ?thesis
    proof (cases "load_globals a (files (arg_config a))")
      case (Inl e)
      with Some show ?thesis by (simp add: script_def init_def)
    next
      case (Inr g')
      with Some show ?thesis by (simp add: script_def main_declined [OF assms])
    qed
  qed
  then show ?thesis by (simp add: main_declined [OF assms])
qed

theorem declined_confirmation_aborts_witness:
  "main example_globals (scripted ''no'' [] (\<lambda>k. 0)) init =
           Some (SysExit ''Aborted.'',
             \<lparr>nreq = 0, nclk = 0,
              trace = [Line ''The server will be stopped if it is already running, to rescale it.'',
                       Input (confirm_prompt example_globals)]\<rparr>) \<and>
         (\<exists>out s'. script example_cli no_files (scripted ''no'' [] (\<lambda>k. 0)) = Some (out, s') \<and> exit_status out \<noteq> 0 \<and>
            (\<forall>call rp. Http call rp \<notin> set (trace s')))"
  using declined_confirmation_aborts [of "scripted ''no'' [] (\<lambda>k. 0)" "''no''" example_globals example_cli no_files]
  by (simp add: scripted_def lower_def)

text \<open>
  Claim C2. The server is reported \<open>running\<close>, the operator confirms, poweroff is
  accepted, and the wait for \<open>off\<close> runs out of time: after \<open>n\<close> polls within the 300
  seconds, a poll still shows another status and the clock is past the limit. Then the
  wait prints the timeout message, \<open>stop_server\<close> fails, \<open>main\<close> ends with
  \<open>sys.exit("Aborted.")\<close> (status 1), and the trace holds no change_type request.
\<close>

theorem stop_timeout_aborts_without_change_type:
  assumes "stdin w = Some confirm" and "lower confirm = ''y''"
    and "reports (http w 0) 200 ''running''"
    and "http w 1 = Response r1" and "status_code r1 = 201"
    and "\<forall>i<n. pending (http w (2 + i)) 200 ''off'' \<and> \<not> clock w (1 + i) - clock w 0 > 300"
    and "pending (http w (2 + n)) 200 ''off''"
    and "clock w (1 + n) - clock w 0 > 300"
  shows "\<exists>s'. main g w init = Some (SysExit ''Aborted.'', s') \<and>
           exit_status (SysExit ''Aborted.'') \<noteq> 0 \<and>
           trace s' =
             [Line ''The server will be stopped if it is already running, to rescale it.'',
              Input (confirm_prompt g),
              Http (GetServer (server_id g)) (http w 0),
              Line ''Server is currently running.'',
              Http (ServerAction (server_id g) ''poweroff'') (Response r1),
              Line ''Server stopping...'',
              Clock (clock w 0)] @
             polls w (server_id g) 2 1 0 n @
             [Http (GetServer (server_id g)) (http w (2 + n)),
              Clock (clock w (1 + n)),
              Line ''Timed out waiting for server status change.'',
              Line ''Failed to stop server.''] \<and>
           (\<forall>e \<in> set (trace s'). \<not> is_change_type e)"
proof -
  from reportsD [OF assms(3)] obtain r0 where r0: "http w 0 = Response r0"
    "status_code r0 = 200" "server_status_of r0 = Inr (JStr ''running'')" by blast
  let ?s1 = "\<lparr>nreq = 1, nclk = 0,
       trace =
         [Line ''The server will be stopped if it is already running, to rescale it.'',
          Input (confirm_prompt g),
          Http (GetServer (server_id g)) (http w 0),
          Line ''Server is currently running.'']\<rparr>"
  let ?s2 = "\<lparr>nreq = 3 + n, nclk = 2 + n,
       trace = trace ?s1 @ [Http (ServerAction (server_id g) ''poweroff'') (Response r1),
             Line ''Server stopping...'',
             Clock (clock w 0)] @ polls w (server_id g) 2 1 0 n @
         [Http (GetServer (server_id g)) (http w (2 + n)),
          Clock (clock w (1 + n)),
          Line ''Timed out waiting for server status change.'',
          Line ''Failed to stop server.'']\<rparr>"
  have check: "server_is_running w (server_id g)
        \<lparr>nreq = 0, nclk = 0,
         trace = [Line ''The server will be stopped if it is already running, to rescale it.'',
                  Input (confirm_prompt g)]\<rparr> =
        (Inr (Some True),
         \<lparr>nreq = 1, nclk = 0,
       trace =
         [Line ''The server will be stopped if it is already running, to rescale it.'',
          Input (confirm_prompt g),
          Http (GetServer (server_id g)) (http w 0)]\<rparr>)"
    using r0 by (simp add: server_is_running_def effect_defs)
  have stop: "stop_server w (server_id g) ?s1 = Some (Inr False, ?s2)"
    using stop_server_times_out [of w ?s1 r1 n "server_id g"] assms(4-8)
    by (simp add: numeral_2_eq_2 numeral_3_eq_3)
  have run: "main g w init = Some (SysExit ''Aborted.'', ?s2)"
    using check stop
    by (simp add: main_confirmed [OF assms(1,2)] print_def emit_def)
  have "\<forall>e \<in> set (trace ?s2). \<not> is_change_type e"
    by (auto dest: polls_no_change_type)
  with run show ?thesis by simp
qed

theorem stop_timeout_aborts_without_change_type_witness:
  "\<exists>s'. main example_globals timeout_world init = Some (SysExit ''Aborted.'', s') \<and>
        Line ''Timed out waiting for server status change.'' \<in> set (trace s') \<and>
        (\<forall>e \<in> set (trace s'). \<not> is_change_type e)"
  using stop_timeout_aborts_without_change_type
    [of timeout_world "''y''" accepted 1 example_globals]
  by (auto simp: timeout_world_def example_defs lower_def lower_char_def)

text \<open>
  Claim C3. The server is reported \<open>running\<close>, the operator confirms, both actions are
  accepted and both waits see their status in time (after \<open>n\<close> and \<open>m\<close> polls that show
  another status). Then the run is exactly: banner, prompt, status fetch, poweroff, polls
  until \<open>off\<close>, a sleep of 5, change_type with the requested type and disk flag, polls
  until \<open>running\<close>; \<open>main\<close> returns and the exit status is 0.
\<close>

theorem running_server_rescale_sequence:
  assumes "stdin w = Some confirm" and "lower confirm = ''y''"
    and "reports (http w 0) 200 ''running''"
    and "http w 1 = Response r1" and "status_code r1 = 201"
    and "\<forall>i<n. pending (http w (2 + i)) 200 ''off'' \<and> \<not> clock w (1 + i) - clock w 0 > 300"
    and "reports (http w (2 + n)) 200 ''off''"
    and "http w (3 + n) = Response r2" and "status_code r2 = 201"
    and "\<forall>i<m. pending (http w (4 + n + i)) 200 ''running'' \<and>
                 \<not> clock w (2 + n + i) - clock w (1 + n) > 300"
    and "reports (http w (4 + n + m)) 200 ''running''"
  shows "main g w init =
    Some (Returned,
      \<lparr>nreq = 5 + n + m, nclk = 2 + n + m,
       trace =
         [Line ''The server will be stopped if it is already running, to rescale it.'',
          Input (confirm_prompt g),
          Http (GetServer (server_id g)) (http w 0),
          Line ''Server is currently running.'',
          Http (ServerAction (server_id g) ''poweroff'') (Response r1),
          Line ''Server stopping...'',
          Clock (clock w 0)] @
         polls w (server_id g) 2 1 0 n @
         [Http (GetServer (server_id g)) (http w (2 + n)),
          Stdout [CHR 0x08, CHR '' '', CHR 0x0A],
          Line ''Server stopped successfully.'',
          Line ''Waiting 5 seconds before proceeding.'',
          Sleep 5,
          Http (ChangeServerType (server_id g) (server_type g) (upgrade_disk g)) (Response r2),
          Line (''Server scaling to '' @ server_type g @ '' started successfully.''),
          Line ''Waiting for server to boot.'',
          Clock (clock w (1 + n))] @
         polls w (server_id g) (4 + n) (2 + n) 0 m @
         [Http (GetServer (server_id g)) (http w (4 + n + m)),
          Stdout [CHR 0x08, CHR '' '', CHR 0x0A],
          Line ''Rescaled server now accessible'']\<rparr>) \<and>
    exit_status Returned = 0"
proof -
  from reportsD [OF assms(3)] obtain r0 where r0: "http w 0 = Response r0"
    "status_code r0 = 200" "server_status_of r0 = Inr (JStr ''running'')" by blast
  let ?s1 = "\<lparr>nreq = 1, nclk = 0,
       trace =
         [Line ''The server will be stopped if it is already running, to rescale it.'',
          Input (confirm_prompt g),
          Http (GetServer (server_id g)) (http w 0),
          Line ''Server is currently running.'']\<rparr>"
  let ?s2 = "\<lparr>nreq = 3 + n, nclk = 1 + n,
       trace = trace ?s1 @ [Http (ServerAction (server_id g) ''poweroff'') (Response r1),
             Line ''Server stopping...'',
             Clock (clock w 0)] @ polls w (server_id g) 2 1 0 n @
         [Http (GetServer (server_id g)) (http w (2 + n)), Stdout [CHR 0x08, CHR '' '', CHR 0x0A],
          Line ''Server stopped successfully.'',
          Line ''Waiting 5 seconds before proceeding.'', Sleep 5]\<rparr>"
  have check: "server_is_running w (server_id g)
        \<lparr>nreq = 0, nclk = 0,
         trace = [Line ''The server will be stopped if it is already running, to rescale it.'',
                  Input (confirm_prompt g)]\<rparr> =
        (Inr (Some True),
         \<lparr>nreq = 1, nclk = 0,
       trace =
         [Line ''The server will be stopped if it is already running, to rescale it.'',
          Input (confirm_prompt g),
          Http (GetServer (server_id g)) (http w 0)]\<rparr>)"
    using r0 by (simp add: server_is_running_def effect_defs)
  have stop: "stop_server w (server_id g) ?s1 = Some (Inr True, ?s2)"
    using stop_server_succeeds [of w ?s1 r1 n "server_id g"] assms(4-7)
    by (simp add: numeral_2_eq_2 numeral_3_eq_3)
  have scale: "main_scale g w ?s2 = Some (Returned,
      \<lparr>nreq = 5 + n + m, nclk = 2 + n + m,
       trace = trace ?s2 @ 
         [Http (ChangeServerType (server_id g) (server_type g) (upgrade_disk g)) (Response r2),
          Line (''Server scaling to '' @ server_type g @ '' started successfully.''),
          Line ''Waiting for server to boot.'',
          Clock (clock w (1 + n))] @
         polls w (server_id g) (4 + n) (2 + n) 0 m @
         [Http (GetServer (server_id g)) (http w (4 + n + m)),
          Stdout [CHR 0x08, CHR '' '', CHR 0x0A],
          Line ''Rescaled server now accessible'']\<rparr>)"
    using main_scale_succeeds [of w ?s2 r2 m g] assms(8-11)
    by (simp add: eval_nat_numeral)
  show ?thesis
    using check stop scale
    by (simp add: main_confirmed [OF assms(1,2)] print_def emit_def)
qed

theorem running_server_rescale_sequence_witness:
  "map_option fst (main example_globals happy_world init) = Some Returned"
  using running_server_rescale_sequence [of happy_world "''y''" accepted 1 accepted 1 example_globals]
  by (simp add: happy_world_def example_defs lower_def lower_char_def)

text \<open>
  Claim C4. The operator confirms and the first fetch succeeds (code 200) with a status
  \<open>v\<close> that is not the string \<open>running\<close>. Then \<open>main\<close> goes on with lines 201 to 209
  from the state that holds the banner, the prompt, the fetch and the message
  \<open>Server is not running.\<close> only; in every run that ends, the next event is the
  change_type request, and every later request is a fetch. No poweroff and no wait for
  \<open>off\<close> take place.
\<close>

theorem not_running_skips_stopping:
  assumes "stdin w = Some confirm" and "lower confirm = ''y''"
    and "http w 0 = Response r0" and "status_code r0 = 200"
    and "server_status_of r0 = Inr v" and "v \<noteq> JStr ''running''"
  shows "main g w init =
           main_scale g w
             \<lparr>nreq = 1, nclk = 0,
              trace =
                [Line ''The server will be stopped if it is already running, to rescale it.'',
                 Input (confirm_prompt g),
                 Http (GetServer (server_id g)) (Response r0),
                 Line ''Server is not running.'']\<rparr> \<and>
         (\<forall>out s'. main g w init = Some (out, s') \<longrightarrow>
            (\<exists>evs. trace s' =
                [Line ''The server will be stopped if it is already running, to rescale it.'',
                 Input (confirm_prompt g),
                 Http (GetServer (server_id g)) (Response r0),
                 Line ''Server is not running.'',
                 Http (ChangeServerType (server_id g) (server_type g) (upgrade_disk g))
                   (http w 1)] @ evs \<and>
              only_fetches (server_id g) evs))"
proof -
  let ?s1 = "\<lparr>nreq = 1, nclk = 0,
              trace =
                [Line ''The server will be stopped if it is already running, to rescale it.'',
                 Input (confirm_prompt g),
                 Http (GetServer (server_id g)) (Response r0),
                 Line ''Server is not running.'']\<rparr>"
  have check: "server_is_running w (server_id g)
        \<lparr>nreq = 0, nclk = 0,
         trace = [Line ''The server will be stopped if it is already running, to rescale it.'',
                  Input (confirm_prompt g)]\<rparr> =
        (Inr (Some False),
         \<lparr>nreq = 1, nclk = 0,
       trace =
         [Line ''The server will be stopped if it is already running, to rescale it.'',
          Input (confirm_prompt g),
          Http (GetServer (server_id g)) (Response r0)]\<rparr>)"
    using assms(3-6) by (simp add: server_is_running_def effect_defs)
  have skip: "main g w init = main_scale g w ?s1"
    using check by (simp add: main_confirmed [OF assms(1,2)] print_def emit_def)
  have "\<exists>evs. trace s' = trace ?s1 @
          [Http (ChangeServerType (server_id g) (server_type g) (upgrade_disk g)) (http w 1)] @ evs \<and>
              only_fetches (server_id g) evs"
    if "main g w init = Some (out, s')" for out s'
  proof -
    from that skip have "main_scale g w ?s1 = Some (out, s')" by simp
    from main_scale_Some_D [OF this] show ?thesis by auto
  qed
  with skip show ?thesis by simp
qed

theorem not_running_skips_stopping_witness:
  "\<exists>evs. trace (snd (the (main example_globals off_rejected_world init))) =
      [Line ''The server will be stopped if it is already running, to rescale it.'',
       Input (confirm_prompt example_globals),
       Http (GetServer ''42'') (fetched ''off''),
       Line ''Server is not running.'',
       Http (ChangeServerType ''42'' ''cpx21'' False) (Response rejected)] @ evs \<and>
     only_fetches ''42'' evs"
proof -
  have run: "main example_globals off_rejected_world init =
     Some (SysExit ''Aborted.'',
       \<lparr>nreq = 2, nclk = 0,
        trace =
          [Line ''The server will be stopped if it is already running, to rescale it.'',
           Input (confirm_prompt example_globals),
           Http (GetServer ''42'') (fetched ''off''),
           Line ''Server is not running.'',
           Http (ChangeServerType ''42'' ''cpx21'' False) (Response rejected),
           Line (error_message rejected)]\<rparr>)"
    by (simp add: main_def input_def init_def effect_defs off_rejected_world_def scripted_def
        lower_def lower_char_def server_is_running_def main_scale_def scale_server_def
        example_globals_def fetched_def server_response_def rejected_def server_status_of_def)
  show ?thesis
    using not_running_skips_stopping
      [of off_rejected_world "''y''" "server_response ''off''" "JStr ''off''" example_globals]
      run
    by (simp add: off_rejected_world_def example_defs lower_def lower_char_def
        example_globals_def)
qed

text \<open>
  Claim C5 says that the status of the server is fetched before the operator is asked
  to confirm. \<open>main\<close> does the opposite: it prompts first (lines 182 to 187) and fetches
  the status afterwards (line 190). In this run, with server 42 running and a poweroff
  that the provider rejects, the prompt is the second event and the first request comes
  after it.
\<close>

theorem prompt_comes_before_status_fetch:
  "main example_globals rejected_poweroff_world init =
     Some (SysExit ''Aborted.'',
       \<lparr>nreq = 2, nclk = 0,
        trace =
          [Line ''The server will be stopped if it is already running, to rescale it.'',
           Input ''Do you want to proceed with scaling the server to cpx21? (y/n): '',
           Http (GetServer ''42'') (fetched ''running''),
           Line ''Server is currently running.'',
           Http (ServerAction ''42'' ''poweroff'') (Response rejected),
           Line (error_message rejected)]\<rparr>)"
  by (simp add: main_def input_def init_def effect_defs rejected_poweroff_world_def scripted_def
      lower_def lower_char_def server_is_running_def stop_server_def confirm_prompt_def
      example_globals_def fetched_def server_response_def rejected_def server_status_of_def)

text \<open>
  Claim C6. In any call of \<open>wait_for_server_status\<close>, from any state, let the first
  \<open>n\<close> passes of the loop go round again and let the next fetch return a status code
  other than the expected one. Then the call returns \<open>False\<close>, and after that fetch the
  trace holds the error message and nothing else: no further request, no sleep, no
  reading of the clock (the count of clock readings is the start reading plus one per
  earlier pass).
\<close>

theorem unexpected_status_code_abandons_wait:
  assumes "\<forall>i<n. pending (http w (nreq s + i)) code status \<and>
                 \<not> clock w (Suc (nclk s + i)) - clock w (nclk s) > timeout"
    and "http w (nreq s + n) = Response r"
    and "status_code r \<noteq> code"
  shows "wait_for_server_status w sid status code timeout s =
    Some (Inr False,
      (s\<lparr>nreq := Suc (nreq s + n), nclk := Suc (nclk s + n),
       trace := trace s @ Clock (clock w (nclk s)) # polls w sid (nreq s) (Suc (nclk s)) 0 n @
         [Http (GetServer sid) (Response r), Line (error_message r)]\<rparr>))"
  using assms by (rule wait_bad_code)

theorem unexpected_status_code_abandons_wait_witness:
  "wait_for_server_status failing_poll_world ''42'' ''off'' 200 300 init =
     Some (Inr False,
       \<lparr>nreq = 2, nclk = 2,
        trace =
          [Clock 0,
           Http (GetServer ''42'') (fetched ''stopping''), Clock 1,
           Stdout [CHR 0x08, CHR ''|''], Sleep 1,
           Http (GetServer ''42'') (Response rejected),
           Line (error_message rejected)]\<rparr>)"
  using unexpected_status_code_abandons_wait
    [of 1 failing_poll_world init 200 "''off''" 300 rejected "''42''"]
  by (simp add: failing_poll_world_def example_defs init_def poll_events_def spinner_def)

text \<open>
  Claim C7. A poweroff or change_type request answered with a code other than 201 is
  fatal, on every path of \<open>main\<close> that reaches the request: poweroff (the operator
  confirmed, the server is reported \<open>running\<close>), change_type for a server that is not
  running, and change_type after a stop that succeeded (after \<open>n\<close> polls). In each case
  \<open>main\<close> ends with \<open>sys.exit("Aborted.")\<close>, and after the request the trace holds one
  line, \<open>Error\<close> followed by the code and the body of the response as received, and no
  second request. The same holds for lines 201 to 209 entered in any state. The exit
  status is 1. A response with code 201 is accepted: \<open>stop_server\<close> goes on to wait for
  \<open>off\<close>, \<open>scale_server\<close> returns \<open>True\<close>. The code is printed as its decimal numeral:
  the text reads back as the code, and for a code that is not negative it consists of
  digits without a leading zero.
\<close>

theorem rejected_action_is_fatal:
  "(stdin w = Some confirm \<and> lower confirm = ''y'' \<and> reports (http w 0) 200 ''running'' \<and>
    http w 1 = Response r \<and> status_code r \<noteq> 201 \<longrightarrow>
      main g w init =
        Some (SysExit ''Aborted.'',
          \<lparr>nreq = 2, nclk = 0,
           trace =
             [Line ''The server will be stopped if it is already running, to rescale it.'',
              Input (confirm_prompt g),
              Http (GetServer (server_id g)) (http w 0),
              Line ''Server is currently running.'',
              Http (ServerAction (server_id g) ''poweroff'') (Response r),
              Line (''Error '' @ str_int (status_code r) @ '': '' @ resp_text r)]\<rparr>)) \<and>
   (stdin w = Some confirm \<and> lower confirm = ''y'' \<and> http w 0 = Response rf \<and>
    status_code rf = 200 \<and> server_status_of rf = Inr v \<and> v \<noteq> JStr ''running'' \<and>
    http w 1 = Response r \<and> status_code r \<noteq> 201 \<longrightarrow>
      main g w init =
        Some (SysExit ''Aborted.'',
          \<lparr>nreq = 2, nclk = 0,
           trace =
             [Line ''The server will be stopped if it is already running, to rescale it.'',
              Input (confirm_prompt g),
              Http (GetServer (server_id g)) (Response rf),
              Line ''Server is not running.'',
              Http (ChangeServerType (server_id g) (server_type g) (upgrade_disk g)) (Response r),
              Line (''Error '' @ str_int (status_code r) @ '': '' @ resp_text r)]\<rparr>)) \<and>
   (stdin w = Some confirm \<and> lower confirm = ''y'' \<and> reports (http w 0) 200 ''running'' \<and>
    http w 1 = Response rk \<and> status_code rk = 201 \<and>
    (\<forall>i<n. pending (http w (2 + i)) 200 ''off'' \<and> \<not> clock w (1 + i) - clock w 0 > 300) \<and>
    reports (http w (2 + n)) 200 ''off'' \<and>
    http w (3 + n) = Response r \<and> status_code r \<noteq> 201 \<longrightarrow>
      main g w init =
        Some (SysExit ''Aborted.'',
          \<lparr>nreq = 4 + n, nclk = 1 + n,
           trace =
             [Line ''The server will be stopped if it is already running, to rescale it.'',
              Input (confirm_prompt g),
              Http (GetServer (server_id g)) (http w 0),
              Line ''Server is currently running.'',
              Http (ServerAction (server_id g) ''poweroff'') (Response rk),
              Line ''Server stopping...'',
              Clock (clock w 0)] @
             polls w (server_id g) 2 1 0 n @
             [Http (GetServer (server_id g)) (http w (2 + n)),
              Stdout [CHR 0x08, CHR '' '', CHR 0x0A],
              Line ''Server stopped successfully.'',
              Line ''Waiting 5 seconds before proceeding.'',
              Sleep 5,
              Http (ChangeServerType (server_id g) (server_type g) (upgrade_disk g)) (Response r),
              Line (''Error '' @ str_int (status_code r) @ '': '' @ resp_text r)]\<rparr>)) \<and>
   (http w (nreq s) = Response r \<and> status_code r \<noteq> 201 \<longrightarrow>
      main_scale g w s =
        Some (SysExit ''Aborted.'',
          (s\<lparr>nreq := Suc (nreq s),
             trace := trace s @
               [Http (ChangeServerType (server_id g) (server_type g) (upgrade_disk g)) (Response r),
                Line (''Error '' @ str_int (status_code r) @ '': '' @ resp_text r)]\<rparr>))) \<and>
   exit_status (SysExit ''Aborted.'') = 1 \<and>
   (http w (nreq t) = Response a \<and> status_code a = 201 \<longrightarrow>
      stop_server w sid t =
        (case wait_for_server_status w sid ''off'' 200 300
                (t\<lparr>nreq := Suc (nreq t),
                   trace := trace t @ [Http (ServerAction sid ''poweroff'') (Response a),
                                       Line ''Server stopping...'']\<rparr>) of
           None \<Rightarrow> None
         | Some (Inl e, s2) \<Rightarrow> Some (Inl e, s2)
         | Some (Inr True, s2) \<Rightarrow>
             Some (Inr True,
               sleep 5 (print ''Waiting 5 seconds before proceeding.''
                 (print ''Server stopped successfully.'' s2)))
         | Some (Inr False, s2) \<Rightarrow> Some (Inr False, print ''Failed to stop server.'' s2)) \<and>
      scale_server w sid ty up t =
        (Inr True,
          (t\<lparr>nreq := Suc (nreq t),
             trace := trace t @ [Http (ChangeServerType sid ty up) (Response a),
               Line (''Server scaling to '' @ ty @ '' started successfully.'')]\<rparr>))) \<and>
   (int_of_str (str_int (status_code r)) = status_code r \<and>
    (0 \<le> status_code r \<longrightarrow>
       (\<forall>c \<in> set (str_int (status_code r)). is_digit c) \<and>
       (0 < status_code r \<longrightarrow> hd (str_int (status_code r)) \<noteq> CHR ''0'')))"
proof -
  have A: "stdin w = Some confirm \<and> lower confirm = ''y'' \<and> reports (http w 0) 200 ''running'' \<and>
    http w 1 = Response r \<and> status_code r \<noteq> 201 \<longrightarrow>
      main g w init =
        Some (SysExit ''Aborted.'',
          \<lparr>nreq = 2, nclk = 0,
           trace =
             [Line ''The server will be stopped if it is already running, to rescale it.'',
              Input (confirm_prompt g),
              Http (GetServer (server_id g)) (http w 0),
              Line ''Server is currently running.'',
              Http (ServerAction (server_id g) ''poweroff'') (Response r),
              Line (''Error '' @ str_int (status_code r) @ '': '' @ resp_text r)]\<rparr>)"
    using main_poweroff_rejected [of w confirm r g] by blast
  have B: "stdin w = Some confirm \<and> lower confirm = ''y'' \<and> http w 0 = Response rf \<and>
    status_code rf = 200 \<and> server_status_of rf = Inr v \<and> v \<noteq> JStr ''running'' \<and>
    http w 1 = Response r \<and> status_code r \<noteq> 201 \<longrightarrow>
      main g w init =
        Some (SysExit ''Aborted.'',
          \<lparr>nreq = 2, nclk = 0,
           trace =
             [Line ''The server will be stopped if it is already running, to rescale it.'',
              Input (confirm_prompt g),
              Http (GetServer (server_id g)) (Response rf),
              Line ''Server is not running.'',
              Http (ChangeServerType (server_id g) (server_type g) (upgrade_disk g)) (Response r),
              Line (''Error '' @ str_int (status_code r) @ '': '' @ resp_text r)]\<rparr>)"
    using main_change_type_rejected_not_running [of w confirm rf v r g] by blast
  have C: "stdin w = Some confirm \<and> lower confirm = ''y'' \<and> reports (http w 0) 200 ''running'' \<and>
    http w 1 = Response rk \<and> status_code rk = 201 \<and>
    (\<forall>i<n. pending (http w (2 + i)) 200 ''off'' \<and> \<not> clock w (1 + i) - clock w 0 > 300) \<and>
    reports (http w (2 + n)) 200 ''off'' \<and>
    http w (3 + n) = Response r \<and> status_code r \<noteq> 201 \<longrightarrow>
      main g w init =
        Some (SysExit ''Aborted.'',
          \<lparr>nreq = 4 + n, nclk = 1 + n,
           trace =
             [Line ''The server will be stopped if it is already running, to rescale it.'',
              Input (confirm_prompt g),
              Http (GetServer (server_id g)) (http w 0),
              Line ''Server is currently running.'',
              Http (ServerAction (server_id g) ''poweroff'') (Response rk),
              Line ''Server stopping...'',
              Clock (clock w 0)] @
             polls w (server_id g) 2 1 0 n @
             [Http (GetServer (server_id g)) (http w (2 + n)),
              Stdout [CHR 0x08, CHR '' '', CHR 0x0A],
              Line ''Server stopped successfully.'',
              Line ''Waiting 5 seconds before proceeding.'',
              Sleep 5,
              Http (ChangeServerType (server_id g) (server_type g) (upgrade_disk g)) (Response r),
              Line (''Error '' @ str_int (status_code r) @ '': '' @ resp_text r)]\<rparr>)"
    using main_change_type_rejected_after_stop [of w confirm rk n r g] by blast
  have D: "http w (nreq s) = Response r \<and> status_code r \<noteq> 201 \<longrightarrow>
      main_scale g w s =
        Some (SysExit ''Aborted.'',
          (s\<lparr>nreq := Suc (nreq s),
             trace := trace s @
               [Http (ChangeServerType (server_id g) (server_type g) (upgrade_disk g)) (Response r),
                Line (''Error '' @ str_int (status_code r) @ '': '' @ resp_text r)]\<rparr>))"
    using main_scale_rejected [of w s r g] by blast
  have E: "exit_status (SysExit ''Aborted.'') = 1" by simp
  have F: "http w (nreq t) = Response a \<and> status_code a = 201 \<longrightarrow>
      stop_server w sid t =
        (case wait_for_server_status w sid ''off'' 200 300
                (t\<lparr>nreq := Suc (nreq t),
                   trace := trace t @ [Http (ServerAction sid ''poweroff'') (Response a),
                                       Line ''Server stopping...'']\<rparr>) of
           None \<Rightarrow> None
         | Some (Inl e, s2) \<Rightarrow> Some (Inl e, s2)
         | Some (Inr True, s2) \<Rightarrow>
             Some (Inr True,
               sleep 5 (print ''Waiting 5 seconds before proceeding.''
                 (print ''Server stopped successfully.'' s2)))
         | Some (Inr False, s2) \<Rightarrow> Some (Inr False, print ''Failed to stop server.'' s2)) \<and>
      scale_server w sid ty up t =
        (Inr True,
          (t\<lparr>nreq := Suc (nreq t),
             trace := trace t @ [Http (ChangeServerType sid ty up) (Response a),
               Line (''Server scaling to '' @ ty @ '' started successfully.'')]\<rparr>))"
    using stop_server_accepted [of w t a sid] scale_server_accepted [of w t a sid ty up]
    by blast
  have G: "int_of_str (str_int (status_code r)) = status_code r \<and>
    (0 \<le> status_code r \<longrightarrow>
       (\<forall>c \<in> set (str_int (status_code r)). is_digit c) \<and>
       (0 < status_code r \<longrightarrow> hd (str_int (status_code r)) \<noteq> CHR ''0''))"
  proof (intro conjI impI ballI)
    show "int_of_str (str_int (status_code r)) = status_code r"
      by (rule int_of_str_str_int)
  next
    fix c assume "0 \<le> status_code r" and "c \<in> set (str_int (status_code r))"
    then show "is_digit c"
      by (simp add: str_int_def str_nat_digits)
  next
    assume "0 \<le> status_code r" and "0 < status_code r"
    then show "hd (str_int (status_code r)) \<noteq> CHR ''0''"
      by (simp add: str_int_def str_nat_no_leading_zero)
  qed
  from A B C D E F G show ?thesis by blast
qed

theorem rejected_action_is_fatal_witness:
  "main example_globals rejected_poweroff_world init =
     Some (SysExit ''Aborted.'',
       \<lparr>nreq = 2, nclk = 0,
        trace =
          [Line ''The server will be stopped if it is already running, to rescale it.'',
           Input (confirm_prompt example_globals),
           Http (GetServer ''42'') (fetched ''running''),
           Line ''Server is currently running.'',
           Http (ServerAction ''42'' ''poweroff'') (Response rejected),
           Line (''Error 423: '' @ resp_text rejected)]\<rparr>) \<and>
   main example_globals off_rejected_world init =
     Some (SysExit ''Aborted.'',
       \<lparr>nreq = 2, nclk = 0,
        trace =
          [Line ''The server will be stopped if it is already running, to rescale it.'',
           Input (confirm_prompt example_globals),
           Http (GetServer ''42'') (fetched ''off''),
           Line ''Server is not running.'',
           Http (ChangeServerType ''42'' ''cpx21'' False) (Response rejected),
           Line (''Error 423: '' @ resp_text rejected)]\<rparr>) \<and>
   main example_globals rejected_after_stop_world init =
     Some (SysExit ''Aborted.'',
       \<lparr>nreq = 5, nclk = 2,
        trace =
          [Line ''The server will be stopped if it is already running, to rescale it.'',
           Input (confirm_prompt example_globals),
           Http (GetServer ''42'') (fetched ''running''),
           Line ''Server is currently running.'',
           Http (ServerAction ''42'' ''poweroff'') (Response accepted),
           Line ''Server stopping...'',
           Clock 0,
           Http (GetServer ''42'') (fetched ''stopping''), Clock 1,
           Stdout [CHR 0x08, CHR ''|''], Sleep 1,
           Http (GetServer ''42'') (fetched ''off''),
           Stdout [CHR 0x08, CHR '' '', CHR 0x0A],
           Line ''Server stopped successfully.'',
           Line ''Waiting 5 seconds before proceeding.'',
           Sleep 5,
           Http (ChangeServerType ''42'' ''cpx21'' False) (Response rejected),
           Line (''Error 423: '' @ resp_text rejected)]\<rparr>) \<and>
   main_scale example_globals rejected_poweroff_world \<lparr>nreq = 1, nclk = 0, trace = []\<rparr> =
     Some (SysExit ''Aborted.'',
       \<lparr>nreq = 2, nclk = 0,
        trace =
          [Http (ChangeServerType ''42'' ''cpx21'' False) (Response rejected),
           Line (''Error 423: '' @ resp_text rejected)]\<rparr>) \<and>
   scale_server rejected_poweroff_world ''42'' ''cpx21'' False \<lparr>nreq = 2, nclk = 0, trace = []\<rparr> =
     (Inr True,
       \<lparr>nreq = 3, nclk = 0,
        trace =
          [Http (ChangeServerType ''42'' ''cpx21'' False) (Response accepted),
           Line ''Server scaling to cpx21 started successfully.'']\<rparr>) \<and>
   str_int 423 = ''423'' \<and> int_of_str ''423'' = 423"
proof -
  have code: "str_int 423 = ''423''"
    by code_simp
  have A: "main example_globals rejected_poweroff_world init =
     Some (SysExit ''Aborted.'',
       \<lparr>nreq = 2, nclk = 0,
        trace =
          [Line ''The server will be stopped if it is already running, to rescale it.'',
           Input (confirm_prompt example_globals),
           Http (GetServer ''42'') (fetched ''running''),
           Line ''Server is currently running.'',
           Http (ServerAction ''42'' ''poweroff'') (Response rejected),
           Line (''Error 423: '' @ resp_text rejected)]\<rparr>)"
    using rejected_action_is_fatal
      [where w = rejected_poweroff_world and confirm = "''y''" and r = rejected
         and g = example_globals, THEN conjunct1]
      code
    by (simp add: rejected_poweroff_world_def example_defs lower_def lower_char_def
        example_globals_def)
  have B: "main example_globals off_rejected_world init =
     Some (SysExit ''Aborted.'',
       \<lparr>nreq = 2, nclk = 0,
        trace =
          [Line ''The server will be stopped if it is already running, to rescale it.'',
           Input (confirm_prompt example_globals),
           Http (GetServer ''42'') (fetched ''off''),
           Line ''Server is not running.'',
           Http (ChangeServerType ''42'' ''cpx21'' False) (Response rejected),
           Line (''Error 423: '' @ resp_text rejected)]\<rparr>)"
    using rejected_action_is_fatal
      [where w = off_rejected_world and confirm = "''y''" and r = rejected
         and rf = "server_response ''off''" and v = "JStr ''off''"
         and g = example_globals, THEN conjunct2, THEN conjunct1]
      code
    by (simp add: off_rejected_world_def example_defs lower_def lower_char_def
        example_globals_def)
  have C: "main example_globals rejected_after_stop_world init =
     Some (SysExit ''Aborted.'',
       \<lparr>nreq = 5, nclk = 2,
        trace =
          [Line ''The server will be stopped if it is already running, to rescale it.'',
           Input (confirm_prompt example_globals),
           Http (GetServer ''42'') (fetched ''running''),
           Line ''Server is currently running.'',
           Http (ServerAction ''42'' ''poweroff'') (Response accepted),
           Line ''Server stopping...'',
           Clock 0,
           Http (GetServer ''42'') (fetched ''stopping''), Clock 1,
           Stdout [CHR 0x08, CHR ''|''], Sleep 1,
           Http (GetServer ''42'') (fetched ''off''),
           Stdout [CHR 0x08, CHR '' '', CHR 0x0A],
           Line ''Server stopped successfully.'',
           Line ''Waiting 5 seconds before proceeding.'',
           Sleep 5,
           Http (ChangeServerType ''42'' ''cpx21'' False) (Response rejected),
           Line (''Error 423: '' @ resp_text rejected)]\<rparr>)"
    using rejected_action_is_fatal
      [where w = rejected_after_stop_world and confirm = "''y''" and r = rejected
         and rk = accepted and n = 1 and g = example_globals,
       THEN conjunct2, THEN conjunct2, THEN conjunct1]
      code
    by (simp add: rejected_after_stop_world_def example_defs lower_def lower_char_def
        example_globals_def poll_events_def spinner_def)
  have D: "main_scale example_globals rejected_poweroff_world \<lparr>nreq = 1, nclk = 0, trace = []\<rparr> =
     Some (SysExit ''Aborted.'',
       \<lparr>nreq = 2, nclk = 0,
        trace =
          [Http (ChangeServerType ''42'' ''cpx21'' False) (Response rejected),
           Line (''Error 423: '' @ resp_text rejected)]\<rparr>)"
    using rejected_action_is_fatal
      [where w = rejected_poweroff_world and r = rejected and g = example_globals
         and s = "\<lparr>nreq = 1, nclk = 0, trace = []\<rparr>",
       THEN conjunct2, THEN conjunct2, THEN conjunct2, THEN conjunct1]
      code
    by (simp add: rejected_poweroff_world_def example_defs example_globals_def)
  have F: "scale_server rejected_poweroff_world ''42'' ''cpx21'' False
       \<lparr>nreq = 2, nclk = 0, trace = []\<rparr> =
     (Inr True,
       \<lparr>nreq = 3, nclk = 0,
        trace =
          [Http (ChangeServerType ''42'' ''cpx21'' False) (Response accepted),
           Line ''Server scaling to cpx21 started successfully.'']\<rparr>)"
    using rejected_action_is_fatal
      [where w = rejected_poweroff_world and a = accepted
         and t = "\<lparr>nreq = 2, nclk = 0, trace = []\<rparr>" and sid = "''42''"
         and ty = "''cpx21''" and up = False,
       THEN conjunct2, THEN conjunct2, THEN conjunct2, THEN conjunct2, THEN conjunct2,
       THEN conjunct1]
    by (simp add: rejected_poweroff_world_def example_defs)
  have G: "int_of_str ''423'' = 423"
    using rejected_action_is_fatal
      [where r = rejected,
       THEN conjunct2, THEN conjunct2, THEN conjunct2, THEN conjunct2, THEN conjunct2,
       THEN conjunct2]
      code
    by (simp add: rejected_def)
  from code A B C D F G show ?thesis by simp
qed

text \<open>
  Claim C8. Take any run of \<open>main\<close> that ends and in which a change_type request was
  answered with code 201. Every request after it is a fetch of the server (no poweron,
  no other action), and the run returns from \<open>main\<close>, with exit status 0, exactly when one
  of these fetches succeeds and shows \<open>running\<close>. And such a run does end: from any state
  in which lines 201 to 209 are entered, if change_type is accepted and, after \<open>m\<close> polls
  that show another status within the time limit, a poll shows \<open>running\<close>, then \<open>main\<close>
  returns.
\<close>

theorem no_action_after_change_type:
  "(main g w init = Some (out, s') \<and>
    trace s' = pre @ Http (ChangeServerType sid ty up) (Response r) # post \<and>
    status_code r = 201 \<longrightarrow>
      only_fetches (server_id g) post \<and>
      (\<forall>c rp. Http c rp \<in> set post \<longrightarrow> \<not> is_action c) \<and>
      (out = Returned \<longleftrightarrow>
         (\<exists>rp. Http (GetServer (server_id g)) rp \<in> set post \<and> reports rp 200 ''running'')) \<and>
      (exit_status out = 0 \<longleftrightarrow> out = Returned)) \<and>
   (http w (nreq s) = Response a \<and> status_code a = 201 \<and>
    (\<forall>i<m. pending (http w (Suc (nreq s) + i)) 200 ''running'' \<and>
           \<not> clock w (Suc (nclk s + i)) - clock w (nclk s) > 300) \<and>
    reports (http w (Suc (nreq s) + m)) 200 ''running'' \<longrightarrow>
      main_scale g w s =
        Some (Returned,
          (s\<lparr>nreq := Suc (Suc (nreq s + m)), nclk := Suc (nclk s + m),
             trace := trace s @
               [Http (ChangeServerType (server_id g) (server_type g) (upgrade_disk g)) (Response a),
                Line (''Server scaling to '' @ server_type g @ '' started successfully.''),
                Line ''Waiting for server to boot.'',
                Clock (clock w (nclk s))] @
               polls w (server_id g) (Suc (nreq s)) (Suc (nclk s)) 0 m @
               [Http (GetServer (server_id g)) (http w (Suc (nreq s) + m)),
                Stdout [CHR 0x08, CHR '' '', CHR 0x0A],
                Line ''Rescaled server now accessible'']\<rparr>)))"
proof (rule conjI; rule impI)
  assume h: "main g w init = Some (out, s') \<and>
    trace s' = pre @ Http (ChangeServerType sid ty up) (Response r) # post \<and>
    status_code r = 201"
  then have run: "main g w init = Some (out, s')"
    and split: "trace s' = pre @ Http (ChangeServerType sid ty up) (Response r) # post"
    and acc: "status_code r = 201"
    by simp_all
  show "only_fetches (server_id g) post \<and>
      (\<forall>c rp. Http c rp \<in> set post \<longrightarrow> \<not> is_action c) \<and>
      (out = Returned \<longleftrightarrow>
         (\<exists>rp. Http (GetServer (server_id g)) rp \<in> set post \<and> reports rp 200 ''running'')) \<and>
      (exit_status out = 0 \<longleftrightarrow> out = Returned)"
    by (rule accepted_change_type_D [OF run split acc])
next
  assume h: "http w (nreq s) = Response a \<and> status_code a = 201 \<and>
    (\<forall>i<m. pending (http w (Suc (nreq s) + i)) 200 ''running'' \<and>
           \<not> clock w (Suc (nclk s + i)) - clock w (nclk s) > 300) \<and>
    reports (http w (Suc (nreq s) + m)) 200 ''running''"
  then have "http w (nreq s) = Response a" "status_code a = 201"
    "\<forall>i<m. pending (http w (Suc (nreq s) + i)) 200 ''running'' \<and>
           \<not> clock w (Suc (nclk s + i)) - clock w (nclk s) > 300"
    "reports (http w (Suc (nreq s) + m)) 200 ''running''"
    by simp_all
  then show "main_scale g w s =
        Some (Returned,
          (s\<lparr>nreq := Suc (Suc (nreq s + m)), nclk := Suc (nclk s + m),
             trace := trace s @
               [Http (ChangeServerType (server_id g) (server_type g) (upgrade_disk g)) (Response a),
                Line (''Server scaling to '' @ server_type g @ '' started successfully.''),
                Line ''Waiting for server to boot.'',
                Clock (clock w (nclk s))] @
               polls w (server_id g) (Suc (nreq s)) (Suc (nclk s)) 0 m @
               [Http (GetServer (server_id g)) (http w (Suc (nreq s) + m)),
                Stdout [CHR 0x08, CHR '' '', CHR 0x0A],
                Line ''Rescaled server now accessible'']\<rparr>))"
    by (rule main_scale_succeeds)
qed

theorem no_action_after_change_type_witness:
  "main example_globals off_world init =
     Some (Returned,
       \<lparr>nreq = 3, nclk = 1,
        trace =
          [Line ''The server will be stopped if it is already running, to rescale it.'',
           Input (confirm_prompt example_globals),
           Http (GetServer ''42'') (fetched ''off''),
           Line ''Server is not running.'',
           Http (ChangeServerType ''42'' ''cpx21'' False) (Response accepted),
           Line ''Server scaling to cpx21 started successfully.'',
           Line ''Waiting for server to boot.'',
           Clock 0,
           Http (GetServer ''42'') (fetched ''running''),
           Stdout [CHR 0x08, CHR '' '', CHR 0x0A],
           Line ''Rescaled server now accessible'']\<rparr>) \<and>
   only_fetches ''42''
     [Line ''Server scaling to cpx21 started successfully.'',
      Line ''Waiting for server to boot.'',
      Clock 0,
      Http (GetServer ''42'') (fetched ''running''),
      Stdout [CHR 0x08, CHR '' '', CHR 0x0A],
      Line ''Rescaled server now accessible''] \<and>
   exit_status Returned = 0"
proof -
  let ?s1 = "\<lparr>nreq = 1, nclk = 0,
        trace =
          [Line ''The server will be stopped if it is already running, to rescale it.'',
           Input (confirm_prompt example_globals),
           Http (GetServer ''42'') (fetched ''off''),
           Line ''Server is not running.'']\<rparr>"
  have start: "main example_globals off_world init = main_scale example_globals off_world ?s1"
    by (simp add: main_def input_def init_def effect_defs off_world_def scripted_def
        lower_def lower_char_def server_is_running_def example_globals_def fetched_def
        server_response_def server_status_of_def)
  have fwd: "main_scale example_globals off_world ?s1 =
     Some (Returned,
       \<lparr>nreq = 3, nclk = 1,
        trace =
          [Line ''The server will be stopped if it is already running, to rescale it.'',
           Input (confirm_prompt example_globals),
           Http (GetServer ''42'') (fetched ''off''),
           Line ''Server is not running.'',
           Http (ChangeServerType ''42'' ''cpx21'' False) (Response accepted),
           Line ''Server scaling to cpx21 started successfully.'',
           Line ''Waiting for server to boot.'',
           Clock 0,
           Http (GetServer ''42'') (fetched ''running''),
           Stdout [CHR 0x08, CHR '' '', CHR 0x0A],
           Line ''Rescaled server now accessible'']\<rparr>)"
    using no_action_after_change_type
      [where w = off_world and s = ?s1 and a = accepted and m = 0 and g = example_globals,
       THEN conjunct2]
    by (simp add: off_world_def example_defs example_globals_def)
  have bwd: "only_fetches ''42''
     [Line ''Server scaling to cpx21 started successfully.'',
      Line ''Waiting for server to boot.'',
      Clock 0,
      Http (GetServer ''42'') (fetched ''running''),
      Stdout [CHR 0x08, CHR '' '', CHR 0x0A],
      Line ''Rescaled server now accessible'']"
    using no_action_after_change_type
      [where g = example_globals and w = off_world and out = Returned
         and pre = "[Line ''The server will be stopped if it is already running, to rescale it.'',
           Input (confirm_prompt example_globals),
           Http (GetServer ''42'') (fetched ''off''),
           Line ''Server is not running.'']"
         and sid = "''42''" and ty = "''cpx21''" and up = False and r = accepted
         and post = "[Line ''Server scaling to cpx21 started successfully.'',
            Line ''Waiting for server to boot.'',
            Clock 0,
            Http (GetServer ''42'') (fetched ''running''),
            Stdout [CHR 0x08, CHR '' '', CHR 0x0A],
            Line ''Rescaled server now accessible'']",
       THEN conjunct1]
      start fwd
    by (simp add: accepted_def example_globals_def)
  from start fwd bwd show ?thesis by simp
qed

text \<open>
  Claim C9 says that a value given on the command line always wins over the value of the
  configuration file. For \<open>api_key\<close> and \<open>server_id\<close> the script writes
  \<open>args.x or config.get(...)\<close>, and an empty string is falsy: with \<open>--api_key ""\<close> on
  the command line and a key in the file, the key of the file is used.
\<close>

theorem empty_command_line_value_falls_back:
  "cli_api_key empty_key_cli = Some [] \<and>
   config_get example_config ''hetzner'' ''api_key'' = Inr ''filekey'' \<and>
   parse_args empty_key_cli =
     Some \<lparr>arg_config = ''config.ini'', arg_api_key = Some [], arg_server_id = Some ''42'',
           arg_server_type = ''cpx21'', arg_upgrade_disk = False\<rparr> \<and>
   load_globals
     \<lparr>arg_config = ''config.ini'', arg_api_key = Some [], arg_server_id = Some ''42'',
      arg_server_type = ''cpx21'', arg_upgrade_disk = False\<rparr> example_config =
     Inr \<lparr>api_key = ''filekey'', server_id = ''42'', server_type = ''cpx21'',
          upgrade_disk = False\<rparr>"
  by (simp add: empty_key_cli_def example_config_def config_get_def parse_args_def
      server_type_choices_def load_globals_def config_getboolean_def lower_def lower_char_def)

text \<open>
  Claim C9 as amended. When the command line is accepted and the module-level statements
  raise nothing: a non-empty \<open>--api_key\<close> and a non-empty \<open>--server_id\<close> are the values
  used, \<open>--server_type\<close> is the value used, and with \<open>--upgrade_disk\<close> the flag is set,
  whatever the configuration file holds.
\<close>

theorem command_line_overrides_file:
  assumes "parse_args c = Some a" and "load_globals a cfg = Inr g"
  shows "(\<forall>k. cli_api_key c = Some k \<and> k \<noteq> [] \<longrightarrow> api_key g = k) \<and>
         (\<forall>i. cli_server_id c = Some i \<and> i \<noteq> [] \<longrightarrow> server_id g = i) \<and>
         (\<forall>t. cli_server_type c = Some t \<longrightarrow> server_type g = t) \<and>
         (cli_upgrade_disk c \<longrightarrow> upgrade_disk g)"
proof -
  from assms(1) have a: "arg_api_key a = cli_api_key c" "arg_server_id a = cli_server_id c"
    "arg_upgrade_disk a = cli_upgrade_disk c"
    "\<forall>t. cli_server_type c = Some t \<longrightarrow> arg_server_type a = t"
    by (auto simp: parse_args_def split: option.splits if_splits)
  from assms(2) have g: "server_type g = arg_server_type a"
    "\<forall>k. arg_api_key a = Some k \<and> k \<noteq> [] \<longrightarrow> api_key g = k"
    "\<forall>i. arg_server_id a = Some i \<and> i \<noteq> [] \<longrightarrow> server_id g = i"
    "arg_upgrade_disk a \<longrightarrow> upgrade_disk g"
    by (auto simp: load_globals_def split: option.splits sum.splits if_splits)
  from a g show ?thesis by simp
qed

theorem command_line_overrides_file_witness:
  "parse_args both_cli =
     Some \<lparr>arg_config = ''config.ini'', arg_api_key = Some ''secret'', arg_server_id = Some ''42'',
           arg_server_type = ''cpx21'', arg_upgrade_disk = True\<rparr> \<and>
   config_get example_config ''hetzner'' ''api_key'' = Inr ''filekey'' \<and>
   config_get example_config ''hetzner'' ''server_id'' = Inr ''7'' \<and>
   config_getboolean example_config ''hetzner'' ''upgrade_disk'' False = Inr False \<and>
   load_globals
     \<lparr>arg_config = ''config.ini'', arg_api_key = Some ''secret'', arg_server_id = Some ''42'',
      arg_server_type = ''cpx21'', arg_upgrade_disk = True\<rparr> example_config =
     Inr \<lparr>api_key = ''secret'', server_id = ''42'', server_type = ''cpx21'',
          upgrade_disk = True\<rparr>"
  using command_line_overrides_file
    [of both_cli
      "\<lparr>arg_config = ''config.ini'', arg_api_key = Some ''secret'', arg_server_id = Some ''42'',
        arg_server_type = ''cpx21'', arg_upgrade_disk = True\<rparr>"
      example_config
      "\<lparr>api_key = ''secret'', server_id = ''42'', server_type = ''cpx21'',
        upgrade_disk = True\<rparr>"]
  by (simp add: both_cli_def example_config_def parse_args_def server_type_choices_def
      load_globals_def config_get_def config_getboolean_def lower_def lower_char_def)

text \<open>
  Claim C10. If the first fetch of a call of \<open>wait_for_server_status\<close> succeeds and
  shows the status waited for, the call returns \<open>True\<close> for every value of \<open>timeout\<close>,
  zero and negative ones included; the only reading of the clock is the one that sets
  \<open>start_time\<close>. And in every pass of the loop the fetch is the first event, and the
  clock is read in that pass (for the comparison with \<open>timeout\<close>) only if the fetch
  succeeded and showed another status.
\<close>

theorem first_fetch_precedes_timeout_check:
  "(reports (http w (nreq s)) code status \<longrightarrow>
      wait_for_server_status w sid status code timeout s =
        Some (Inr True,
          (s\<lparr>nreq := Suc (nreq s), nclk := Suc (nclk s),
             trace := trace s @
               [Clock (clock w (nclk s)), Http (GetServer sid) (http w (nreq s)),
                Stdout [CHR 0x08, CHR '' '', CHR 0x0A]]\<rparr>))) \<and>
   (\<exists>evs. trace (pass_state (wait_pass w sid status code timeout start k s)) =
            trace s @ Http (GetServer sid) (http w (nreq s)) # evs \<and>
          ((\<exists>t. Clock t \<in> set evs) \<longrightarrow> pending (http w (nreq s)) code status))"
proof (intro conjI impI)
  assume "reports (http w (nreq s)) code status"
  then show "wait_for_server_status w sid status code timeout s =
        Some (Inr True,
          (s\<lparr>nreq := Suc (nreq s), nclk := Suc (nclk s),
             trace := trace s @
               [Clock (clock w (nclk s)), Http (GetServer sid) (http w (nreq s)),
                Stdout [CHR 0x08, CHR '' '', CHR 0x0A]]\<rparr>))"
    using wait_returns_True [of 0 w s code status timeout sid] by simp
next
  show "\<exists>evs. trace (pass_state (wait_pass w sid status code timeout start k s)) =
            trace s @ Http (GetServer sid) (http w (nreq s)) # evs \<and>
          ((\<exists>t. Clock t \<in> set evs) \<longrightarrow> pending (http w (nreq s)) code status)"
    by (auto simp: wait_pass_def pending_def effect_defs split: reply.splits sum.splits)
qed

theorem first_fetch_precedes_timeout_check_witness:
  "wait_for_server_status (scripted ''y'' [fetched ''off''] (\<lambda>k. 1000 * real k)) ''42'' ''off'' 200 0
     init =
     Some (Inr True,
       \<lparr>nreq = 1, nclk = 1,
        trace = [Clock 0, Http (GetServer ''42'') (fetched ''off''),
                 Stdout [CHR 0x08, CHR '' '', CHR 0x0A]]\<rparr>)"
  using first_fetch_precedes_timeout_check
    [where w = "scripted ''y'' [fetched ''off''] (\<lambda>k. 1000 * real k)" and s = init and code = 200
       and status = "''off''" and sid = "''42''" and timeout = 0, THEN conjunct1]
  by (simp add: example_defs init_def)

end
